theory Spec2Isabelle
  imports Complex_Main "HOL-Library.List_Lexorder" "HOL-Library.Char_ord"
begin

section \<open>Python values\<close>

text \<open>
  The tools of OpenPrint3D work on the values that \<^verbatim>\<open>json.load\<close> and the
  importer build: \<^verbatim>\<open>None\<close>, booleans, integers, floats, strings, lists and
  dictionaries. A dictionary is an association list in insertion order; its keys are
  strings, or integers where \<^verbatim>\<open>set_nested\<close> stores under an \<^verbatim>\<open>int\<close>.
  A finite float is held as the exact rational value it denotes, beside the two
  infinities and NaN: the rounding of binary64 arithmetic is outside this model.
\<close>

datatype pykey = KStr string | KInt nat

datatype pyfloat = Fin rat | PosInf | NegInf | NaN

datatype pyval =
    VNone
  | VBool bool
  | VInt int
  | VFloat pyfloat
  | VStr string
  | VList "pyval list"
  | VDict "(pykey \<times> pyval) list"

type_synonym pydict = "(pykey \<times> pyval) list"

datatype py_error =
    ValueError
  | TypeError
  | IndexError
  | KeyError
  | AttributeError
  | NoSectionError
  | NoOptionError

text \<open>Sequencing of computations that may raise.\<close>

definition bind_err :: "py_error + 'a \<Rightarrow> ('a \<Rightarrow> py_error + 'b) \<Rightarrow> py_error + 'b" where
  "bind_err m f = (case m of Inl e \<Rightarrow> Inl e | Inr x \<Rightarrow> f x)"

subsection \<open>Dictionaries\<close>

fun dict_set :: "pydict \<Rightarrow> pykey \<Rightarrow> pyval \<Rightarrow> pydict" where
  "dict_set [] k v = [(k, v)]"
| "dict_set ((k', v') # rest) k v =
     (if k' = k then (k', v) # rest else (k', v') # dict_set rest k v)"

definition dict_get :: "pydict \<Rightarrow> pykey \<Rightarrow> pyval option" where
  "dict_get d k = map_of d k"

definition dict_has :: "pydict \<Rightarrow> pykey \<Rightarrow> bool" where
  "dict_has d k = (k \<in> set (map fst d))"

text \<open>\<^verbatim>\<open>dict(items)\<close>: a later pair replaces the value of an earlier one with the same key.\<close>

definition dict_of_items :: "(pykey \<times> pyval) list \<Rightarrow> pydict" where
  "dict_of_items items = foldl (\<lambda>acc kv. dict_set acc (fst kv) (snd kv)) [] items"

subsection \<open>Truth value, equality and order of values\<close>

fun truthy :: "pyval \<Rightarrow> bool" where
  "truthy VNone = False"
| "truthy (VBool b) = b"
| "truthy (VInt i) = (i \<noteq> 0)"
| "truthy (VFloat f) = (f \<noteq> Fin 0)"
| "truthy (VStr s) = (s \<noteq> [])"
| "truthy (VList xs) = (xs \<noteq> [])"
| "truthy (VDict kvs) = (kvs \<noteq> [])"

fun is_number :: "pyval \<Rightarrow> bool" where
  "is_number (VBool _) = True"
| "is_number (VInt _) = True"
| "is_number (VFloat _) = True"
| "is_number _ = False"

text \<open>Arithmetic and comparison of floats, with the special values of IEEE 754.\<close>

fun f_neg :: "pyfloat \<Rightarrow> pyfloat" where
  "f_neg (Fin a) = Fin (- a)"
| "f_neg PosInf = NegInf"
| "f_neg NegInf = PosInf"
| "f_neg NaN = NaN"

fun f_add :: "pyfloat \<Rightarrow> pyfloat \<Rightarrow> pyfloat" where
  "f_add (Fin a) (Fin b) = Fin (a + b)"
| "f_add NaN _ = NaN"
| "f_add _ NaN = NaN"
| "f_add PosInf NegInf = NaN"
| "f_add NegInf PosInf = NaN"
| "f_add PosInf _ = PosInf"
| "f_add NegInf _ = NegInf"
| "f_add (Fin a) b = b"

definition f_sub :: "pyfloat \<Rightarrow> pyfloat \<Rightarrow> pyfloat" where
  "f_sub a b = f_add a (f_neg b)"

fun f_sign :: "pyfloat \<Rightarrow> int" where
  "f_sign (Fin a) = (if a < 0 then - 1 else if a = 0 then 0 else 1)"
| "f_sign PosInf = 1"
| "f_sign NegInf = - 1"
| "f_sign NaN = 0"

fun f_mul :: "pyfloat \<Rightarrow> pyfloat \<Rightarrow> pyfloat" where
  "f_mul (Fin a) (Fin b) = Fin (a * b)"
| "f_mul NaN _ = NaN"
| "f_mul _ NaN = NaN"
| "f_mul a b =
     (if f_sign a * f_sign b = 0 then NaN
      else if f_sign a * f_sign b < 0 then NegInf else PosInf)"

fun f_less :: "pyfloat \<Rightarrow> pyfloat \<Rightarrow> bool" where
  "f_less (Fin a) (Fin b) = (a < b)"
| "f_less NaN _ = False"
| "f_less _ NaN = False"
| "f_less NegInf b = (b \<noteq> NegInf)"
| "f_less a PosInf = (a \<noteq> PosInf)"
| "f_less _ _ = False"

definition f_eq :: "pyfloat \<Rightarrow> pyfloat \<Rightarrow> bool" where
  "f_eq a b = (a \<noteq> NaN \<and> a = b)"

definition f_le :: "pyfloat \<Rightarrow> pyfloat \<Rightarrow> bool" where
  "f_le a b = (f_less a b \<or> f_eq a b)"

text \<open>The value of a number; a boolean is the integer 0 or 1.\<close>

fun num_of :: "pyval \<Rightarrow> pyfloat" where
  "num_of (VBool b) = Fin (if b then 1 else 0)"
| "num_of (VInt i) = Fin (of_int i)"
| "num_of (VFloat f) = f"
| "num_of _ = NaN"

text \<open>
  Python's \<^verbatim>\<open>==\<close>: numbers (booleans included) compare by value whatever their
  type, so that NaN is unequal to itself; lists compare element by element,
  dictionaries key by key whatever the order.

  Inside a list or a dictionary Python tests two elements with \<^verbatim>\<open>is\<close> before it
  tests them with \<^verbatim>\<open>==\<close>. The values here are those \<^verbatim>\<open>json.load\<close> returns, and
  the decoder hands out one and the same object for every \<^verbatim>\<open>NaN\<close> literal: two
  NaN elements are the same object and pass the test, which is the one case where
  the first test decides otherwise than the second.
\<close>

definition same_object :: "pyval \<Rightarrow> pyval \<Rightarrow> bool" where
  "same_object v w = (v = VFloat NaN \<and> w = VFloat NaN)"

fun py_eq :: "pyval \<Rightarrow> pyval \<Rightarrow> bool" where
  "py_eq (VList xs) w =
     (case w of VList ys \<Rightarrow> list_all2 (\<lambda>x y. same_object x y \<or> py_eq x y) xs ys | _ \<Rightarrow> False)"
| "py_eq (VDict kvs) w =
     (case w of
        VDict kws \<Rightarrow>
          length kvs = length kws \<and>
          list_all
            (\<lambda>kv. case map_of kws (fst kv) of
                    None \<Rightarrow> False
                  | Some v' \<Rightarrow> same_object (snd kv) v' \<or> py_eq (snd kv) v')
            kvs
      | _ \<Rightarrow> False)"
| "py_eq VNone w = (w = VNone)"
| "py_eq (VStr s) w = (w = VStr s)"
| "py_eq v w = (is_number w \<and> f_eq (num_of v) (num_of w))"

text \<open>\<^verbatim>\<open>max(a, b)\<close> and \<^verbatim>\<open>min(a, b)\<close> on numbers keep the first argument on a tie.\<close>

definition py_max :: "pyval \<Rightarrow> pyval \<Rightarrow> pyval" where
  "py_max a b = (if f_less (num_of a) (num_of b) then b else a)"

definition py_min :: "pyval \<Rightarrow> pyval \<Rightarrow> pyval" where
  "py_min a b = (if f_less (num_of b) (num_of a) then b else a)"

subsection \<open>Text of numbers and values\<close>

definition digit_char :: "nat \<Rightarrow> char" where
  "digit_char d = char_of (48 + d)"

fun nat_str :: "nat \<Rightarrow> string" where
  "nat_str n = (if n < 10 then [digit_char n] else nat_str (n div 10) @ [digit_char (n mod 10)])"

definition int_str :: "int \<Rightarrow> string" where
  "int_str i = (if i < 0 then CHR ''-'' # nat_str (nat (- i)) else nat_str (nat i))"

text \<open>
  The fractional digits of \<open>num / den\<close>, at most \<open>fuel\<close> of them. Python prints the
  shortest decimal that reads back as the same float; for a float written with
  few digits that is the decimal itself.
\<close>

fun frac_digits :: "nat \<Rightarrow> nat \<Rightarrow> nat \<Rightarrow> string" where
  "frac_digits 0 num den = []"
| "frac_digits (Suc fuel) num den =
     (if num = 0 then []
      else digit_char ((num * 10) div den) # frac_digits fuel ((num * 10) mod den) den)"

definition fin_str :: "rat \<Rightarrow> string" where
  "fin_str r =
     (let (n, d) = quotient_of \<bar>r\<bar>;
          whole = nat n div nat d;
          part = frac_digits 17 (nat n mod nat d) (nat d)
      in (if r < 0 then ''-'' else []) @ nat_str whole @ ''.'' @ (if part = [] then ''0'' else part))"

fun float_str :: "pyfloat \<Rightarrow> string" where
  "float_str (Fin r) = fin_str r"
| "float_str PosInf = ''inf''"
| "float_str NegInf = ''-inf''"
| "float_str NaN = ''nan''"

definition key_str :: "pykey \<Rightarrow> string" where
  "key_str k = (case k of KStr s \<Rightarrow> s | KInt n \<Rightarrow> nat_str n)"

text \<open>
  \<^verbatim>\<open>str(v)\<close>, as an f-string formats a value. Inside a list or a dictionary Python
  quotes a string with \<^verbatim>\<open>repr\<close>; the quoting here is the plain one, right for a
  string without quotes, backslashes or control characters.
\<close>

fun join :: "string \<Rightarrow> string list \<Rightarrow> string" where
  "join sep [] = []"
| "join sep [x] = x"
| "join sep (x # y # ys) = x @ sep @ join sep (y # ys)"

fun py_fmt :: "bool \<Rightarrow> pyval \<Rightarrow> string" where
  "py_fmt quoted (VStr s) = (if quoted then [CHR 0x27] @ s @ [CHR 0x27] else s)"
| "py_fmt quoted VNone = ''None''"
| "py_fmt quoted (VBool b) = (if b then ''True'' else ''False'')"
| "py_fmt quoted (VInt i) = int_str i"
| "py_fmt quoted (VFloat f) = float_str f"
| "py_fmt quoted (VList xs) = ''['' @ join '', '' (map (py_fmt True) xs) @ '']''"
| "py_fmt quoted (VDict kvs) =
     ''{'' @ join '', ''
       (map (\<lambda>kv. (case fst kv of KStr s \<Rightarrow> [CHR 0x27] @ s @ [CHR 0x27] | KInt n \<Rightarrow> nat_str n)
                  @ '': '' @ py_fmt True (snd kv)) kvs) @ ''}''"

definition py_str :: "pyval \<Rightarrow> string" where
  "py_str v = py_fmt False v"

section \<open>The flatten and diff engine (compare\_profiles.py)\<close>

text \<open>
  \<^verbatim>\<open>flatten_dict(d, parent_key, sep)\<close>. The joined key is a string as soon as the
  parent key is truthy; under a falsy parent (the empty string of the first call) the
  key is kept as it is. Only dictionaries are descended into.
\<close>

definition truthy_key :: "pykey \<Rightarrow> bool" where
  "truthy_key k = (case k of KStr s \<Rightarrow> s \<noteq> [] | KInt n \<Rightarrow> n \<noteq> 0)"

definition new_key :: "pykey \<Rightarrow> string \<Rightarrow> pykey \<Rightarrow> pykey" where
  "new_key parent_key sep k =
     (if truthy_key parent_key then KStr (key_str parent_key @ sep @ key_str k) else k)"

fun flatten_dict :: "pydict \<Rightarrow> pykey \<Rightarrow> string \<Rightarrow> pydict" where
  "flatten_dict d parent_key sep =
     dict_of_items
       (concat
          (map (\<lambda>kv. case snd kv of
                        VDict sub \<Rightarrow> flatten_dict sub (new_key parent_key sep (fst kv)) sep
                      | v \<Rightarrow> [(new_key parent_key sep (fst kv), v)])
               d))"

definition compare_values :: "pyval \<Rightarrow> pyval \<Rightarrow> bool" where
  "compare_values v1 v2 =
     (if v1 = VNone \<and> v2 = VNone then True
      else if v1 = VNone \<or> v2 = VNone then False
      else py_eq v1 v2)"

text \<open>
  \<^verbatim>\<open>sorted(all_keys)\<close>: strings sort by code point, integers by value, and Python
  raises \<^verbatim>\<open>TypeError\<close> when it has to order a string against an integer.
\<close>

fun str_keys :: "pykey list \<Rightarrow> string list" where
  "str_keys [] = []"
| "str_keys (KStr s # ks) = s # str_keys ks"
| "str_keys (KInt n # ks) = str_keys ks"

fun int_keys :: "pykey list \<Rightarrow> nat list" where
  "int_keys [] = []"
| "int_keys (KStr s # ks) = int_keys ks"
| "int_keys (KInt n # ks) = n # int_keys ks"

definition py_sorted :: "pykey list \<Rightarrow> py_error + pykey list" where
  "py_sorted ks =
     (if str_keys ks \<noteq> [] \<and> int_keys ks \<noteq> [] then Inl TypeError
      else Inr (map KStr (sort (str_keys ks)) @ map KInt (sort (int_keys ks))))"

record diff_entry =
  d_key :: pykey
  d_profile1 :: pyval
  d_profile2 :: pyval
  d_status :: string

record diff_stats =
  total_keys :: nat
  n_differences :: nat
  n_common :: nat
  only_in_profile1 :: nat
  only_in_profile2 :: nat
  modified :: nat

record comparison =
  profile1_schema :: pyval
  profile2_schema :: pyval
  profile1_id :: pyval
  profile2_id :: pyval
  differences :: "diff_entry list"
  common :: "(pykey \<times> pyval) list"
  stats :: diff_stats

text \<open>The loop over the sorted keys; \<^verbatim>\<open>flat.get(key)\<close> is \<^verbatim>\<open>None\<close> for a missing key.\<close>

definition get_or_none :: "pydict \<Rightarrow> pykey \<Rightarrow> pyval" where
  "get_or_none d k = (case dict_get d k of None \<Rightarrow> VNone | Some v \<Rightarrow> v)"

fun compare_keys ::
  "pydict \<Rightarrow> pydict \<Rightarrow> bool \<Rightarrow> pykey list \<Rightarrow> diff_entry list \<times> (pykey \<times> pyval) list" where
  "compare_keys flat1 flat2 show_common [] = ([], [])"
| "compare_keys flat1 flat2 show_common (key # keys) =
     (let v1 = get_or_none flat1 key;
          v2 = get_or_none flat2 key;
          rest = compare_keys flat1 flat2 show_common keys
      in if \<not> dict_has flat1 key then
           (\<lparr>d_key = key, d_profile1 = VNone, d_profile2 = v2,
              d_status = ''only_in_profile2''\<rparr> # fst rest, snd rest)
         else if \<not> dict_has flat2 key then
           (\<lparr>d_key = key, d_profile1 = v1, d_profile2 = VNone,
              d_status = ''only_in_profile1''\<rparr> # fst rest, snd rest)
         else if \<not> compare_values v1 v2 then
           (\<lparr>d_key = key, d_profile1 = v1, d_profile2 = v2,
              d_status = ''different''\<rparr> # fst rest, snd rest)
         else if show_common then (fst rest, (key, v1) # snd rest)
         else rest)"

definition count_status :: "string \<Rightarrow> diff_entry list \<Rightarrow> nat" where
  "count_status s ds = length (filter (\<lambda>d. d_status d = s) ds)"

definition get_default :: "pydict \<Rightarrow> pykey \<Rightarrow> pyval \<Rightarrow> pyval" where
  "get_default d k dflt = (case dict_get d k of None \<Rightarrow> dflt | Some v \<Rightarrow> v)"

definition compare_profiles :: "pydict \<Rightarrow> pydict \<Rightarrow> bool \<Rightarrow> py_error + comparison" where
  "compare_profiles profile1 profile2 show_common =
     (let flat1 = flatten_dict profile1 (KStr []) ''.'';
          flat2 = flatten_dict profile2 (KStr []) ''.'';
          all_keys = remdups (map fst flat1 @ map fst flat2)
      in bind_err (py_sorted all_keys) (\<lambda>keys.
           let res = compare_keys flat1 flat2 show_common keys
           in Inr \<lparr>profile1_schema = get_default profile1 (KStr ''op3d_schema'') (VStr ''unknown''),
                    profile2_schema = get_default profile2 (KStr ''op3d_schema'') (VStr ''unknown''),
                    profile1_id = get_default profile1 (KStr ''id'') (VStr ''unknown''),
                    profile2_id = get_default profile2 (KStr ''id'') (VStr ''unknown''),
                    differences = fst res,
                    common = snd res,
                    stats = \<lparr>total_keys = length all_keys,
                             n_differences = length (fst res),
                             n_common = length (snd res),
                             only_in_profile1 = count_status ''only_in_profile1'' (fst res),
                             only_in_profile2 = count_status ''only_in_profile2'' (fst res),
                             modified = count_status ''different'' (fst res)\<rparr>\<rparr>))"





section \<open>The exporters (convert\_profile.py)\<close>

text \<open>
  Strings are taken as ASCII text: \<^verbatim>\<open>lower\<close>, \<^verbatim>\<open>upper\<close>, slicing and
  \<^verbatim>\<open>isdigit\<close> work on single characters.
\<close>

definition lower_char :: "char \<Rightarrow> char" where
  "lower_char c =
     (if (65::nat) \<le> of_char c \<and> (of_char c :: nat) \<le> 90 then char_of ((of_char c :: nat) + 32) else c)"

definition upper_char :: "char \<Rightarrow> char" where
  "upper_char c =
     (if (97::nat) \<le> of_char c \<and> (of_char c :: nat) \<le> 122 then char_of ((of_char c :: nat) - 32) else c)"

definition str_lower :: "string \<Rightarrow> string" where
  "str_lower s = map lower_char s"

definition str_upper :: "string \<Rightarrow> string" where
  "str_upper s = map upper_char s"

text \<open>\<^verbatim>\<open>s.replace(old, new)\<close> for a one-character \<open>old\<close>.\<close>

definition replace_char :: "char \<Rightarrow> string \<Rightarrow> string \<Rightarrow> string" where
  "replace_char old new s = concat (map (\<lambda>c. if c = old then new else [c]) s)"

text \<open>\<^verbatim>\<open>obj.get(key, default)\<close>: only a dictionary has the method.\<close>

definition py_get :: "pyval \<Rightarrow> string \<Rightarrow> pyval \<Rightarrow> py_error + pyval" where
  "py_get obj key dflt =
     (case obj of VDict d \<Rightarrow> Inr (get_default d (KStr key) dflt) | _ \<Rightarrow> Inl AttributeError)"

text \<open>\<^verbatim>\<open>obj.lower()\<close>: only a string has the method.\<close>

definition py_lower :: "pyval \<Rightarrow> py_error + string" where
  "py_lower obj = (case obj of VStr s \<Rightarrow> Inr (str_lower s) | _ \<Rightarrow> Inl AttributeError)"

text \<open>\<^verbatim>\<open>obj[0]\<close>.\<close>

definition py_index0 :: "pyval \<Rightarrow> py_error + pyval" where
  "py_index0 obj =
     (case obj of
        VList xs \<Rightarrow> (case xs of [] \<Rightarrow> Inl IndexError | x # _ \<Rightarrow> Inr x)
      | VStr s \<Rightarrow> (case s of [] \<Rightarrow> Inl IndexError | c # _ \<Rightarrow> Inr (VStr [c]))
      | VDict d \<Rightarrow> (case dict_get d (KInt 0) of None \<Rightarrow> Inl KeyError | Some v \<Rightarrow> Inr v)
      | _ \<Rightarrow> Inl TypeError)"

text \<open>
  \<^verbatim>\<open>obj[:4]\<close>. A dictionary cannot be sliced; Python up to 3.11 raises
  \<^verbatim>\<open>TypeError\<close> there (a slice is unhashable), which is what is modelled.
\<close>

definition py_slice4 :: "pyval \<Rightarrow> py_error + pyval" where
  "py_slice4 obj =
     (case obj of
        VList xs \<Rightarrow> Inr (VList (take 4 xs))
      | VStr s \<Rightarrow> Inr (VStr (take 4 s))
      | _ \<Rightarrow> Inl TypeError)"

definition convert_to_cura :: "pyval \<Rightarrow> py_error + pyval" where
  "convert_to_cura profile =
     bind_err (py_get profile ''op3d_schema'' (VStr [])) (\<lambda>schema.
       if py_eq schema (VStr ''filament'') then
         bind_err (py_get profile ''x_cura'' (VDict [])) (\<lambda>x_cura.
           if truthy x_cura then Inr x_cura
           else
             bind_err (py_get profile ''nozzle'' (VDict [])) (\<lambda>nozzle.
             bind_err (py_get profile ''bed'' (VDict [])) (\<lambda>bed.
             bind_err (py_get profile ''fan'' (VDict [])) (\<lambda>fan.
             bind_err (py_get profile ''material'' (VStr ''pla'')) (\<lambda>m.
             bind_err (py_lower m) (\<lambda>material.
             bind_err (py_get nozzle ''recommended'' (VInt 200)) (\<lambda>print_temperature.
             bind_err (py_get nozzle ''min'' (VInt 180)) (\<lambda>print_temperature_layer_0.
             bind_err (py_get bed ''recommended'' (VInt 50)) (\<lambda>bed_temperature.
             bind_err (py_get bed ''min'' (VInt 40)) (\<lambda>bed_temperature_layer_0.
             bind_err (py_get fan ''recommended'' (VInt 100)) (\<lambda>fan_speed.
               Inr (VDict
                 [(KStr ''material'', VStr material),
                  (KStr ''print_temperature'', print_temperature),
                  (KStr ''print_temperature_layer_0'', print_temperature_layer_0),
                  (KStr ''bed_temperature'', bed_temperature),
                  (KStr ''bed_temperature_layer_0'', bed_temperature_layer_0),
                  (KStr ''fan_speed'', fan_speed),
                  (KStr ''fan_speed_layer_0'', VInt 0),
                  (KStr ''cooling'', VStr ''enabled'')]))))))))))))
       else if py_eq schema (VStr ''printer'') then
         bind_err (py_get profile ''x_cura'' (VDict [])) (\<lambda>x_cura.
           if truthy x_cura then py_get x_cura ''definition_changes'' (VDict [])
           else
             bind_err (py_get profile ''build_volume'' (VDict [])) (\<lambda>bv.
             bind_err (py_get bv ''x'' (VInt 200)) (\<lambda>machine_width.
             bind_err (py_get bv ''y'' (VInt 200)) (\<lambda>machine_depth.
             bind_err (py_get bv ''z'' (VInt 200)) (\<lambda>machine_height.
             bind_err (py_get profile ''bed'' (VDict [])) (\<lambda>bed.
             bind_err (py_get bed ''heated'' (VBool True)) (\<lambda>heated_bed.
               Inr (VDict
                 [(KStr ''machine_width'', machine_width),
                  (KStr ''machine_depth'', machine_depth),
                  (KStr ''machine_height'', machine_height),
                  (KStr ''nozzle_size'', VFloat (Fin (4 / 10))),
                  (KStr ''heated_bed'', heated_bed)]))))))))
       else Inr (VDict []))"

definition convert_to_prusaslicer :: "pyval \<Rightarrow> py_error + pyval" where
  "convert_to_prusaslicer profile =
     bind_err (py_get profile ''op3d_schema'' (VStr [])) (\<lambda>schema.
       if py_eq schema (VStr ''filament'') then
         bind_err (py_get profile ''x_prusaslicer'' (VDict [])) (\<lambda>x_ps.
           if truthy x_ps then Inr x_ps
           else
             bind_err (py_get profile ''nozzle'' (VDict [])) (\<lambda>nozzle.
             bind_err (py_get profile ''bed'' (VDict [])) (\<lambda>bed.
             bind_err (py_get profile ''fan'' (VDict [])) (\<lambda>fan.
             bind_err (py_get profile ''material'' (VStr ''PLA'')) (\<lambda>filament_type.
             bind_err (py_get nozzle ''recommended'' (VInt 200)) (\<lambda>temperature.
             bind_err (py_get bed ''recommended'' (VInt 50)) (\<lambda>bed_temperature.
             bind_err (py_get fan ''recommended'' (VInt 100)) (\<lambda>fan_speed.
               Inr (VDict
                 [(KStr ''filament_type'', filament_type),
                  (KStr ''temperature'', temperature),
                  (KStr ''bed_temperature'', bed_temperature),
                  (KStr ''fan_speed'', fan_speed)])))))))))
       else if py_eq schema (VStr ''printer'') then
         bind_err (py_get profile ''x_prusaslicer'' (VDict [])) (\<lambda>x_ps.
           if truthy x_ps then Inr x_ps
           else
             bind_err (py_get profile ''build_volume'' (VDict [])) (\<lambda>bv.
             bind_err (py_get profile ''extruders'' (VList [VDict []])) (\<lambda>extruders.
             bind_err (py_index0 extruders) (\<lambda>extruder.
             bind_err (py_get profile ''manufacturer'' (VStr [])) (\<lambda>manufacturer.
             bind_err (py_get profile ''model'' (VStr [])) (\<lambda>model.
             bind_err (py_get profile ''manufacturer'' (VStr ''Unknown'')) (\<lambda>vendor.
             bind_err (py_get extruder ''nozzle_diameter'' (VFloat (Fin (4 / 10)))) (\<lambda>nozzle_diameter.
             bind_err (py_get bv ''shape'' (VStr ''rectangular'')) (\<lambda>bed_shape.
             bind_err (py_get bv ''x'' (VInt 200)) (\<lambda>x.
             bind_err (py_get bv ''y'' (VInt 200)) (\<lambda>y.
             bind_err (py_get bv ''z'' (VInt 200)) (\<lambda>print_height.
               Inr (VDict
                 [(KStr ''printer_model'', VStr (py_str manufacturer @ '' '' @ py_str model)),
                  (KStr ''vendor'', vendor),
                  (KStr ''filament_diameter'', VFloat (Fin (175 / 100))),
                  (KStr ''nozzle_diameter'', nozzle_diameter),
                  (KStr ''bed_shape'', bed_shape),
                  (KStr ''bed_size'', VStr (py_str x @ ''x'' @ py_str y)),
                  (KStr ''print_height'', print_height)])))))))))))))
       else Inr (VDict []))"

definition convert_to_orca :: "pyval \<Rightarrow> py_error + pyval" where
  "convert_to_orca profile =
     bind_err (py_get profile ''op3d_schema'' (VStr [])) (\<lambda>schema.
       if py_eq schema (VStr ''filament'') then
         bind_err (py_get profile ''x_orca'' (VDict [])) (\<lambda>x_orca.
           if truthy x_orca then Inr x_orca
           else
             bind_err (py_get profile ''nozzle'' (VDict [])) (\<lambda>nozzle.
             bind_err (py_get profile ''bed'' (VDict [])) (\<lambda>bed.
             bind_err (py_get profile ''fan'' (VDict [])) (\<lambda>fan.
             bind_err (py_get profile ''material'' (VStr ''PLA'')) (\<lambda>filament_type.
             bind_err (py_get nozzle ''recommended'' (VInt 200)) (\<lambda>nozzle_temperature.
             bind_err (py_get nozzle ''min'' (VInt 180)) (\<lambda>nozzle_temperature_initial_layer.
             bind_err (py_get bed ''recommended'' (VInt 50)) (\<lambda>bed_temperature.
             bind_err (py_get bed ''min'' (VInt 40)) (\<lambda>bed_temperature_initial_layer.
             bind_err (py_get fan ''recommended'' (VInt 100)) (\<lambda>fan_speed.
               Inr (VDict
                 [(KStr ''filament_type'', filament_type),
                  (KStr ''nozzle_temperature'', nozzle_temperature),
                  (KStr ''nozzle_temperature_initial_layer'', nozzle_temperature_initial_layer),
                  (KStr ''bed_temperature'', bed_temperature),
                  (KStr ''bed_temperature_initial_layer'', bed_temperature_initial_layer),
                  (KStr ''fan_speed'', fan_speed),
                  (KStr ''fan_speed_initial_layer'', VInt 0)])))))))))))
       else if py_eq schema (VStr ''printer'') then
         bind_err (py_get profile ''x_orca'' (VDict [])) (\<lambda>x_orca.
           if truthy x_orca then Inr x_orca
           else
             bind_err (py_get profile ''build_volume'' (VDict [])) (\<lambda>bv.
             bind_err (py_get profile ''extruders'' (VList [VDict []])) (\<lambda>extruders.
             bind_err (py_index0 extruders) (\<lambda>extruder.
             bind_err (py_get profile ''manufacturer'' (VStr [])) (\<lambda>manufacturer.
             bind_err (py_get profile ''model'' (VStr [])) (\<lambda>model.
             bind_err (py_get profile ''manufacturer'' (VStr ''Unknown'')) (\<lambda>machine_manufacturer.
             bind_err (py_get bv ''x'' (VInt 200)) (\<lambda>bed_x.
             bind_err (py_get bv ''y'' (VInt 200)) (\<lambda>bed_y.
             bind_err (py_get bv ''z'' (VInt 200)) (\<lambda>height.
             bind_err (py_get extruder ''nozzle_diameter'' (VFloat (Fin (4 / 10)))) (\<lambda>nozzle_diameter.
               Inr (VDict
                 [(KStr ''machine_name'', VStr (py_str manufacturer @ '' '' @ py_str model)),
                  (KStr ''machine_manufacturer'', machine_manufacturer),
                  (KStr ''bed_x'', bed_x),
                  (KStr ''bed_y'', bed_y),
                  (KStr ''height'', height),
                  (KStr ''nozzle_diameter'', nozzle_diameter),
                  (KStr ''filament_diameter'', VFloat (Fin (175 / 100)))]))))))))))))
       else Inr (VDict []))"

definition convert_to_bambu :: "pyval \<Rightarrow> py_error + pyval" where
  "convert_to_bambu profile =
     bind_err (py_get profile ''op3d_schema'' (VStr [])) (\<lambda>schema.
       if py_eq schema (VStr ''filament'') then
         bind_err (py_get profile ''x_bambu'' (VDict [])) (\<lambda>x_bambu.
           if truthy x_bambu then Inr x_bambu
           else
             bind_err (py_get profile ''nozzle'' (VDict [])) (\<lambda>nozzle.
             bind_err (py_get profile ''bed'' (VDict [])) (\<lambda>bed.
             bind_err (py_get profile ''fan'' (VDict [])) (\<lambda>fan.
             bind_err (py_get profile ''material'' (VStr ''PLA'')) (\<lambda>m.
             bind_err (py_slice4 m) (\<lambda>material4.
             bind_err (py_get nozzle ''min'' (VInt 190)) (\<lambda>nozzle_min.
             bind_err (py_get nozzle ''max'' (VInt 230)) (\<lambda>nozzle_max.
             bind_err (py_get bed ''min'' (VInt 40)) (\<lambda>bed_min.
             bind_err (py_get bed ''max'' (VInt 60)) (\<lambda>bed_max.
             bind_err (py_get fan ''min'' (VInt 50)) (\<lambda>fan_min.
             bind_err (py_get fan ''max'' (VInt 100)) (\<lambda>fan_max.
               Inr (VDict
                 [(KStr ''filament_type_id'', VStr (''G'' @ py_str material4 @ ''00'')),
                  (KStr ''drying_temperature'', VInt 55),
                  (KStr ''drying_time'', VInt 4),
                  (KStr ''nozzle_temperature'', VList [nozzle_min, nozzle_max]),
                  (KStr ''bed_temperature'', VList [bed_min, bed_max]),
                  (KStr ''fan_speed'', VList [fan_min, fan_max])])))))))))))))
       else if py_eq schema (VStr ''printer'') then
         bind_err (py_get profile ''x_bambu'' (VDict [])) (\<lambda>x_bambu.
           if truthy x_bambu then Inr x_bambu
           else
             bind_err (py_get profile ''manufacturer'' (VStr [])) (\<lambda>m.
             bind_err (py_lower m) (\<lambda>manufacturer.
             bind_err (py_get profile ''model'' (VStr [])) (\<lambda>md.
             bind_err (py_lower md) (\<lambda>model.
             bind_err (py_get profile ''model'' (VStr ''Unknown'')) (\<lambda>series.
               Inr (VDict
                 [(KStr ''product_id'',
                   VStr (manufacturer @ ''_''
                         @ replace_char CHR '' '' [] (replace_char CHR ''-'' [] model) @ ''_00'')),
                  (KStr ''series'', series),
                  (KStr ''support_lidar'', VBool False),
                  (KStr ''support_ams'', VBool False),
                  (KStr ''support_ams_lite'', VBool False)])))))))
       else Inr (VDict []))"

text \<open>The four dialects of the command line, and the converter each selects.\<close>

datatype dialect = Cura | PrusaSlicer | Orca | Bambu

fun converter :: "dialect \<Rightarrow> pyval \<Rightarrow> py_error + pyval" where
  "converter Cura = convert_to_cura"
| "converter PrusaSlicer = convert_to_prusaslicer"
| "converter Orca = convert_to_orca"
| "converter Bambu = convert_to_bambu"

fun extension_key :: "dialect \<Rightarrow> string" where
  "extension_key Cura = ''x_cura''"
| "extension_key PrusaSlicer = ''x_prusaslicer''"
| "extension_key Orca = ''x_orca''"
| "extension_key Bambu = ''x_bambu''"

section \<open>Path addressing (import\_prusaslicer.py, set\_nested)\<close>

text \<open>\<^verbatim>\<open>path.split(".")\<close>: the segments between the dots, never an empty list.\<close>

fun split_on :: "char \<Rightarrow> string \<Rightarrow> string list" where
  "split_on c [] = [[]]"
| "split_on c (x # xs) =
     (if x = c then [] # split_on c xs
      else (case split_on c xs of [] \<Rightarrow> [[x]] | w # ws \<Rightarrow> (x # w) # ws))"

definition is_digit :: "char \<Rightarrow> bool" where
  "is_digit c = ((48::nat) \<le> of_char c \<and> (of_char c :: nat) \<le> 57)"

text \<open>\<^verbatim>\<open>key.isdigit()\<close>: a non-empty string of digits.\<close>

definition isdigit :: "string \<Rightarrow> bool" where
  "isdigit s = (s \<noteq> [] \<and> list_all is_digit s)"

text \<open>\<^verbatim>\<open>int(key)\<close> for a string of digits.\<close>

definition digits_nat :: "string \<Rightarrow> nat" where
  "digits_nat s = foldl (\<lambda>acc c. 10 * acc + ((of_char c :: nat) - 48)) 0 s"

text \<open>
  The last statement, \<^verbatim>\<open>d[final_key] = value\<close>. A digit key is an \<^verbatim>\<open>int\<close>: it
  replaces an existing element of a list, raises \<^verbatim>\<open>IndexError\<close> past the end of the
  list, and is stored as an integer key in a dictionary. Each function returns the
  container after the call, with the exception raised, if any.
\<close>

definition store_final :: "pyval \<Rightarrow> string \<Rightarrow> pyval \<Rightarrow> pyval \<times> py_error option" where
  "store_final d final_key val =
     (if isdigit final_key then
        (case d of
           VList xs \<Rightarrow>
             (if digits_nat final_key < length xs
              then (VList (xs[digits_nat final_key := val]), None)
              else (d, Some IndexError))
         | VDict kvs \<Rightarrow> (VDict (dict_set kvs (KInt (digits_nat final_key)) val), None)
         | _ \<Rightarrow> (d, Some TypeError))
      else
        (case d of
           VDict kvs \<Rightarrow> (VDict (dict_set kvs (KStr final_key) val), None)
         | _ \<Rightarrow> (d, Some TypeError)))"

text \<open>
  The loop over \<^verbatim>\<open>keys[:-1]\<close>. The variable \<^verbatim>\<open>d\<close> walks down the structure, which
  is changed in place; here each level returns its container as it is after the call.

  For a digit key under a value that is not a list, the source rebinds \<^verbatim>\<open>d = []\<close>:
  the new list is bound to the local variable only, so the rest of the walk, and the
  final store, work on a structure that nothing else refers to, and the container the
  caller holds stays as it is at that point. Whatever is raised there is still raised.

  For a key that is not a digit string, \<^verbatim>\<open>key not in d\<close> and the indexing that
  follows raise \<^verbatim>\<open>TypeError\<close> on every value that is not a dictionary.
\<close>

fun set_walk :: "pyval \<Rightarrow> string list \<Rightarrow> string \<Rightarrow> pyval \<Rightarrow> pyval \<times> py_error option" where
  "set_walk d [] final_key val = store_final d final_key val"
| "set_walk d (key # keys) final_key val =
     (if isdigit key then
        (case d of
           VList xs \<Rightarrow>
             (let k = digits_nat key;
                  padded = xs @ replicate (Suc k - length xs) (VDict []);
                  r = set_walk (padded ! k) keys final_key val
              in (VList (padded[k := fst r]), snd r))
         | _ \<Rightarrow> (d, snd (set_walk (VDict []) keys final_key val)))
      else
        (case d of
           VDict kvs \<Rightarrow>
             (let kvs' = (if dict_has kvs (KStr key) then kvs
                          else dict_set kvs (KStr key) (VDict []));
                  r = set_walk (get_or_none kvs' (KStr key)) keys final_key val
              in (VDict (dict_set kvs' (KStr key) (fst r)), snd r))
         | _ \<Rightarrow> (d, Some TypeError)))"

definition set_nested :: "pyval \<Rightarrow> string \<Rightarrow> pyval \<Rightarrow> pyval \<times> py_error option" where
  "set_nested d path val =
     (let keys = split_on CHR ''.'' path
      in set_walk d (butlast keys) (last keys) val)"

text \<open>
  Modelled from the spec: the reading half of path addressing,
  \<^verbatim>\<open>get(container, path) -> value | missing\<close>, which the repository does not have.
  A segment of digits is a list index, any other segment a mapping key.
\<close>

fun get_walk :: "pyval \<Rightarrow> string list \<Rightarrow> pyval option" where
  "get_walk d [] = Some d"
| "get_walk d (key # keys) =
     (if isdigit key then
        (case d of
           VList xs \<Rightarrow>
             (if digits_nat key < length xs then get_walk (xs ! digits_nat key) keys else None)
         | _ \<Rightarrow> None)
      else
        (case d of
           VDict kvs \<Rightarrow>
             (case dict_get kvs (KStr key) of None \<Rightarrow> None | Some v \<Rightarrow> get_walk v keys)
         | _ \<Rightarrow> None))"

definition get_nested :: "pyval \<Rightarrow> string \<Rightarrow> pyval option" where
  "get_nested d path = get_walk d (split_on CHR ''.'' path)"

section \<open>The importer (import\_prusaslicer.py)\<close>

subsection \<open>The parsed INI file\<close>

text \<open>
  A \<^verbatim>\<open>ConfigParser\<close> (no interpolation, case-sensitive keys, no default section):
  its sections by name, each the options of the section in file order with their
  raw string values.
\<close>

type_synonym ini_section = "(string \<times> string) list"

type_synonym config = "(string \<times> ini_section) list"

definition has_option :: "config \<Rightarrow> string \<Rightarrow> string \<Rightarrow> bool" where
  "has_option cfg section key =
     (case map_of cfg section of None \<Rightarrow> False | Some opts \<Rightarrow> key \<in> set (map fst opts))"

definition cfg_get :: "config \<Rightarrow> string \<Rightarrow> string \<Rightarrow> py_error + string" where
  "cfg_get cfg section key =
     (case map_of cfg section of
        None \<Rightarrow> Inl NoSectionError
      | Some opts \<Rightarrow> (case map_of opts key of None \<Rightarrow> Inl NoOptionError | Some v \<Rightarrow> Inr v))"

definition cfg_get_fallback :: "config \<Rightarrow> string \<Rightarrow> string \<Rightarrow> string \<Rightarrow> string" where
  "cfg_get_fallback cfg section key fallback =
     (case cfg_get cfg section key of Inl _ \<Rightarrow> fallback | Inr v \<Rightarrow> v)"

definition cfg_options :: "config \<Rightarrow> string \<Rightarrow> py_error + string list" where
  "cfg_options cfg section =
     (case map_of cfg section of None \<Rightarrow> Inl NoSectionError | Some opts \<Rightarrow> Inr (map fst opts))"

subsection \<open>Coercions: \<^verbatim>\<open>str\<close>, \<^verbatim>\<open>float\<close>, \<^verbatim>\<open>int\<close> and the test against "1"\<close>

definition is_space :: "char \<Rightarrow> bool" where
  "is_space c =
     (((9::nat) \<le> of_char c \<and> (of_char c :: nat) \<le> 13) \<or>
      ((28::nat) \<le> of_char c \<and> (of_char c :: nat) \<le> 32))"

definition strip :: "string \<Rightarrow> string" where
  "strip s = rev (dropWhile is_space (rev (dropWhile is_space s)))"

fun take_sign :: "string \<Rightarrow> int \<times> string" where
  "take_sign [] = (1, [])"
| "take_sign (c # cs) =
     (if c = CHR ''+'' then (1, cs) else if c = CHR ''-'' then (- 1, cs) else (1, c # cs))"

fun double_underscore :: "string \<Rightarrow> bool" where
  "double_underscore (a # b # cs) = ((a = CHR ''_'' \<and> b = CHR ''_'') \<or> double_underscore (b # cs))"
| "double_underscore _ = False"

text \<open>
  A run of digits, where single underscores may stand between digits: the digits of
  the run, or nothing when the text is not such a run.
\<close>

definition digit_part :: "string \<Rightarrow> string option" where
  "digit_part s =
     (if s \<noteq> [] \<and> list_all (\<lambda>c. is_digit c \<or> c = CHR ''_'') s \<and> is_digit (hd s) \<and>
         is_digit (last s) \<and> \<not> double_underscore s
      then Some (filter is_digit s) else None)"

text \<open>\<^verbatim>\<open>int(s)\<close>; \<open>None\<close> stands for \<^verbatim>\<open>ValueError\<close>.\<close>

definition py_int :: "string \<Rightarrow> int option" where
  "py_int s =
     (let sb = take_sign (strip s)
      in map_option (\<lambda>ds. fst sb * int (digits_nat ds)) (digit_part (snd sb)))"

definition pow10 :: "int \<Rightarrow> rat" where
  "pow10 e = (if 0 \<le> e then 10 ^ nat e else 1 / 10 ^ nat (- e))"

definition is_exp_mark :: "char \<Rightarrow> bool" where
  "is_exp_mark c = (c = CHR ''e'' \<or> c = CHR ''E'')"

definition parse_exponent :: "string \<Rightarrow> int option" where
  "parse_exponent rest =
     (case rest of
        [] \<Rightarrow> Some 0
      | _ # ex \<Rightarrow>
          (let sb = take_sign ex
           in map_option (\<lambda>ds. fst sb * int (digits_nat ds)) (digit_part (snd sb))))"

definition parse_mantissa :: "string \<Rightarrow> rat option" where
  "parse_mantissa m =
     (let ip = takeWhile (\<lambda>c. c \<noteq> CHR ''.'') m;
          rest = dropWhile (\<lambda>c. c \<noteq> CHR ''.'') m
      in case rest of
           [] \<Rightarrow> map_option (\<lambda>ds. of_nat (digits_nat ds)) (digit_part ip)
         | _ # fp \<Rightarrow>
             (if ip = [] \<and> fp = [] then None
              else
                (case (if ip = [] then Some [] else digit_part ip,
                       if fp = [] then Some [] else digit_part fp) of
                   (Some ids, Some fds) \<Rightarrow>
                     Some (of_nat (digits_nat ids) + of_nat (digits_nat fds) / 10 ^ length fds)
                 | _ \<Rightarrow> None)))"

text \<open>
  \<^verbatim>\<open>float(s)\<close>; \<open>None\<close> stands for \<^verbatim>\<open>ValueError\<close>. The value of a decimal
  literal is the decimal itself.
\<close>

definition py_float :: "string \<Rightarrow> pyfloat option" where
  "py_float s =
     (let sb = take_sign (strip s);
          body = snd sb;
          low = str_lower body
      in if low = ''inf'' \<or> low = ''infinity'' then Some (if fst sb = 1 then PosInf else NegInf)
         else if low = ''nan'' then Some NaN
         else
           (case (parse_mantissa (takeWhile (\<lambda>c. \<not> is_exp_mark c) body),
                  parse_exponent (dropWhile (\<lambda>c. \<not> is_exp_mark c) body)) of
              (Some m, Some e) \<Rightarrow> Some (Fin (of_int (fst sb) * m * pow10 e))
            | _ \<Rightarrow> None))"

definition float_or_raise :: "string \<Rightarrow> py_error + pyfloat" where
  "float_or_raise s = (case py_float s of None \<Rightarrow> Inl ValueError | Some f \<Rightarrow> Inr f)"

datatype coercion = ToStr | ToFloat | ToInt | EqualsOne

fun coerce :: "coercion \<Rightarrow> string \<Rightarrow> pyval option" where
  "coerce ToStr raw = Some (VStr raw)"
| "coerce ToFloat raw = map_option VFloat (py_float raw)"
| "coerce ToInt raw = map_option VInt (py_int raw)"
| "coerce EqualsOne raw = Some (VBool (raw = ''1''))"

subsection \<open>The mapping tables\<close>

definition PRINTER_MAPPINGS :: "(string \<times> string \<times> coercion) list" where
  "PRINTER_MAPPINGS =
     [(''printer_model'', ''model'', ToStr),
      (''printer_make'', ''manufacturer'', ToStr),
      (''printer_variant'', ''variant'', ToStr),
      (''bed_shape'', ''build_volume.shape'', ToStr),
      (''max_print_height'', ''build_volume.z'', ToFloat),
      (''printable_area'', ''build_volume.dimensions'', ToStr),
      (''nozzle_diameter'', ''extruders.0.nozzle_diameter'', ToFloat),
      (''min_layer_height'', ''layer_height.min'', ToFloat),
      (''max_layer_height'', ''layer_height.max'', ToFloat),
      (''retract_length'', ''retraction.distance'', ToFloat),
      (''retract_speed'', ''retraction.speed'', ToFloat),
      (''max_print_speed'', ''speed.max'', ToFloat),
      (''machine_max_speed_x'', ''axes.x.max_speed'', ToFloat),
      (''machine_max_speed_y'', ''axes.y.max_speed'', ToFloat),
      (''machine_max_speed_z'', ''axes.z.max_speed'', ToFloat),
      (''machine_max_acceleration_x'', ''axes.x.max_accel'', ToFloat),
      (''machine_max_acceleration_y'', ''axes.y.max_accel'', ToFloat),
      (''machine_max_acceleration_z'', ''axes.z.max_accel'', ToFloat),
      (''printer_notes'', ''notes'', ToStr)]"

definition FILAMENT_MAPPINGS :: "(string \<times> string \<times> coercion) list" where
  "FILAMENT_MAPPINGS =
     [(''filament_type'', ''material'', ToStr),
      (''filament_vendor'', ''brand'', ToStr),
      (''filament_colour'', ''color'', ToStr),
      (''filament_diameter'', ''diameter'', ToFloat),
      (''filament_density'', ''density'', ToFloat),
      (''temperature'', ''nozzle.recommended'', ToFloat),
      (''first_layer_temperature'', ''nozzle.first_layer'', ToFloat),
      (''bed_temperature'', ''bed.recommended'', ToFloat),
      (''first_layer_bed_temperature'', ''bed.first_layer'', ToFloat),
      (''fan_min_speed'', ''fan.min'', ToFloat),
      (''fan_max_speed'', ''fan.max'', ToFloat),
      (''bridge_fan_speed'', ''fan.bridge'', ToFloat),
      (''disable_fan_first_layers'', ''fan.disable_first_layers'', ToInt),
      (''min_print_speed'', ''printing_speed.min'', ToFloat),
      (''max_print_speed'', ''printing_speed.max'', ToFloat),
      (''filament_max_volumetric_speed'', ''volumetric_speed'', ToFloat),
      (''filament_notes'', ''notes'', ToStr),
      (''filament_cost'', ''cost'', ToFloat),
      (''filament_spool_weight'', ''spool_weight'', ToFloat)]"

definition PROCESS_MAPPINGS :: "(string \<times> string \<times> coercion) list" where
  "PROCESS_MAPPINGS =
     [(''layer_height'', ''layer_height.default'', ToFloat),
      (''first_layer_height'', ''layer_height.first_layer'', ToFloat),
      (''perimeters'', ''wall_settings.wall_count'', ToInt),
      (''top_solid_layers'', ''wall_settings.top_layers'', ToInt),
      (''bottom_solid_layers'', ''wall_settings.bottom_layers'', ToInt),
      (''fill_density'', ''infill.density_default'', ToFloat),
      (''fill_pattern'', ''infill.pattern'', ToStr),
      (''perimeter_speed'', ''speed.outer_wall'', ToFloat),
      (''infill_speed'', ''speed.infill'', ToFloat),
      (''internal_infills_speed'', ''speed.infill_internal'', ToFloat),
      (''solid_infill_speed'', ''speed.solid_infill'', ToFloat),
      (''top_solid_infill_speed'', ''speed.top_bottom'', ToFloat),
      (''bottom_solid_infill_speed'', ''speed.top_bottom'', ToFloat),
      (''travel_speed'', ''speed.travel'', ToFloat),
      (''first_layer_speed'', ''speed.first_layer'', ToFloat),
      (''bridge_speed'', ''speed.bridge'', ToFloat),
      (''external_perimeter_speed'', ''speed.outer_wall'', ToFloat),
      (''retract_length'', ''retraction.distance'', ToFloat),
      (''retract_speed'', ''retraction.speed'', ToFloat),
      (''retract_before_travel'', ''retraction.min_travel'', ToFloat),
      (''cooling'', ''cooling.enabled'', EqualsOne),
      (''fan_below_layer_time'', ''cooling.fan_min_layer_time'', ToInt),
      (''slow_down_layer_time'', ''cooling.slow_down_layer_time'', ToInt),
      (''min_fan_speed'', ''cooling.fan_min'', ToFloat),
      (''max_fan_speed'', ''cooling.fan_max'', ToFloat),
      (''bridge_fan_speed'', ''cooling.fan_bridge'', ToFloat),
      (''support_material'', ''supports.enabled_default'', EqualsOne),
      (''support_material_angle'', ''supports.angle'', ToFloat),
      (''support_material_threshold'', ''supports.overhang_threshold'', ToFloat),
      (''support_material_pattern'', ''supports.pattern'', ToStr),
      (''raft_layers'', ''adhesion.raft_layers'', ToInt),
      (''brim_width'', ''adhesion.brim_width'', ToFloat),
      (''skirts'', ''adhesion.skirt_count'', ToInt),
      (''skirt_distance'', ''adhesion.skirt_distance'', ToFloat),
      (''notes'', ''notes'', ToStr)]"

definition MATERIAL_MAP :: "(string \<times> string) list" where
  "MATERIAL_MAP =
     [(''pla'', ''PLA''), (''pet'', ''PETG''), (''petg'', ''PETG''), (''abs'', ''ABS''),
      (''asa'', ''ASA''), (''tpu'', ''TPU''), (''tpe'', ''TPE''), (''pa'', ''PA6''),
      (''nylon'', ''PA6''), (''pc'', ''PC''), (''pp'', ''PP''), (''pva'', ''PVA''),
      (''hips'', ''HIPS''), (''pvb'', ''PVB'')]"

definition KINEMATICS_MAP :: "(string \<times> string) list" where
  "KINEMATICS_MAP =
     [(''cartesian'', ''cartesian''), (''corexy'', ''corexy''), (''corexz'', ''corexz''),
      (''delta'', ''delta''), (''hybrid_corexy'', ''hybrid_corexy'')]"

subsection \<open>The mapping loop\<close>

text \<open>
  One pass over a mapping table. A coercion that raises \<^verbatim>\<open>ValueError\<close> is skipped,
  and so is a \<^verbatim>\<open>TypeError\<close> of \<^verbatim>\<open>set_nested\<close>, whose changes up to the exception
  stay; any other exception leaves the converter.
\<close>

fun apply_mappings ::
  "config \<Rightarrow> string \<Rightarrow> (string \<times> string \<times> coercion) list \<Rightarrow> pyval \<Rightarrow> py_error + pyval" where
  "apply_mappings cfg section [] profile = Inr profile"
| "apply_mappings cfg section ((ps_key, op3d_path, conv) # rest) profile =
     (if has_option cfg section ps_key then
        (case cfg_get cfg section ps_key of
           Inl e \<Rightarrow> Inl e
         | Inr raw_value \<Rightarrow>
             (case coerce conv raw_value of
                None \<Rightarrow> apply_mappings cfg section rest profile
              | Some v \<Rightarrow>
                  (case set_nested profile op3d_path v of
                     (profile', None) \<Rightarrow> apply_mappings cfg section rest profile'
                   | (profile', Some e) \<Rightarrow>
                       (if e = ValueError \<or> e = TypeError
                        then apply_mappings cfg section rest profile'
                        else Inl e))))
      else apply_mappings cfg section rest profile)"

text \<open>The keys the mapping table does not know, with their raw values.\<close>

fun collect_raw ::
  "config \<Rightarrow> string \<Rightarrow> string list \<Rightarrow> string list \<Rightarrow> pydict \<Rightarrow> py_error + pydict" where
  "collect_raw cfg section mapped [] raw_settings = Inr raw_settings"
| "collect_raw cfg section mapped (key # keys) raw_settings =
     (if key \<in> set mapped then collect_raw cfg section mapped keys raw_settings
      else
        bind_err (cfg_get cfg section key) (\<lambda>v.
          collect_raw cfg section mapped keys (dict_set raw_settings (KStr key) (VStr v))))"

subsection \<open>Item access\<close>

definition py_getitem :: "pyval \<Rightarrow> pykey \<Rightarrow> py_error + pyval" where
  "py_getitem obj k =
     (case obj of
        VDict d \<Rightarrow> (case dict_get d k of None \<Rightarrow> Inl KeyError | Some v \<Rightarrow> Inr v)
      | VList xs \<Rightarrow>
          (case k of
             KInt n \<Rightarrow> (if n < length xs then Inr (xs ! n) else Inl IndexError)
           | KStr _ \<Rightarrow> Inl TypeError)
      | VStr s \<Rightarrow>
          (case k of
             KInt n \<Rightarrow> (if n < length s then Inr (VStr [s ! n]) else Inl IndexError)
           | KStr _ \<Rightarrow> Inl TypeError)
      | _ \<Rightarrow> Inl TypeError)"

definition py_setitem :: "pyval \<Rightarrow> pykey \<Rightarrow> pyval \<Rightarrow> py_error + pyval" where
  "py_setitem obj k v =
     (case obj of
        VDict d \<Rightarrow> Inr (VDict (dict_set d k v))
      | VList xs \<Rightarrow>
          (case k of
             KInt n \<Rightarrow> (if n < length xs then Inr (VList (xs[n := v])) else Inl IndexError)
           | KStr _ \<Rightarrow> Inl TypeError)
      | _ \<Rightarrow> Inl TypeError)"

text \<open>\<^verbatim>\<open>profile[k1][k2] = v\<close>, the profile after the assignment.\<close>

definition set_item2 :: "pyval \<Rightarrow> string \<Rightarrow> string \<Rightarrow> pyval \<Rightarrow> py_error + pyval" where
  "set_item2 profile k1 k2 v =
     bind_err (py_getitem profile (KStr k1)) (\<lambda>sub.
     bind_err (py_setitem sub (KStr k2) v) (\<lambda>sub'.
       py_setitem profile (KStr k1) sub'))"

definition get_item2 :: "pyval \<Rightarrow> string \<Rightarrow> string \<Rightarrow> py_error + pyval" where
  "get_item2 profile k1 k2 =
     bind_err (py_getitem profile (KStr k1)) (\<lambda>sub. py_getitem sub (KStr k2))"

subsection \<open>Helpers of the converters\<close>

fun starts_with :: "string \<Rightarrow> string \<Rightarrow> bool" where
  "starts_with [] s = True"
| "starts_with (c # cs) [] = False"
| "starts_with (c # cs) (x # xs) = (c = x \<and> starts_with cs xs)"

text \<open>\<^verbatim>\<open>needle in s\<close> for two strings.\<close>

fun is_substr :: "string \<Rightarrow> string \<Rightarrow> bool" where
  "is_substr needle [] = (needle = [])"
| "is_substr needle (x # xs) = (starts_with needle (x # xs) \<or> is_substr needle xs)"

fun first_kinematic :: "(string \<times> string) list \<Rightarrow> string \<Rightarrow> string \<Rightarrow> string" where
  "first_kinematic [] printer_type printer_notes = ''cartesian''"
| "first_kinematic ((key, kinematic) # rest) printer_type printer_notes =
     (if is_substr key (str_lower printer_type) \<or> is_substr key (str_lower printer_notes)
      then kinematic
      else first_kinematic rest printer_type printer_notes)"

definition infer_kinematics :: "config \<Rightarrow> string \<Rightarrow> string" where
  "infer_kinematics cfg section =
     first_kinematic KINEMATICS_MAP
       (cfg_get_fallback cfg section ''printer_type'' [])
       (cfg_get_fallback cfg section ''printer_notes'' [])"

text \<open>
  \<^verbatim>\<open>re.findall(r"[-\d.]+,[-\d.]+", bed_shape)\<close>. A match at a position is the longest
  run of characters of the class, a comma, and the longest run after it, both runs
  non-empty (the comma is not in the class, so no shorter first run can match); the
  search goes on after a match, and one character further where there is none.
\<close>

definition in_class :: "char \<Rightarrow> bool" where
  "in_class c = (is_digit c \<or> c = CHR ''-'' \<or> c = CHR ''.'')"

definition match_here :: "string \<Rightarrow> (string \<times> string) option" where
  "match_here s =
     (let run1 = takeWhile in_class s
      in if run1 = [] then None
         else (case dropWhile in_class s of
                 [] \<Rightarrow> None
               | c # after \<Rightarrow>
                   (if c = CHR '','' \<and> takeWhile in_class after \<noteq> []
                    then Some (run1 @ [c] @ takeWhile in_class after, dropWhile in_class after)
                    else None)))"

function findall_coords :: "string \<Rightarrow> string list" where
  "findall_coords s =
     (case match_here s of
        Some (m, rest) \<Rightarrow> m # findall_coords rest
      | None \<Rightarrow> (case s of [] \<Rightarrow> [] | _ # t \<Rightarrow> findall_coords t))"
  by pat_completeness auto
termination
proof (relation "measure length")
  show "wf (measure length)" by simp
next
  fix s :: string and x2 m rest
  assume "match_here s = Some x2" and "(m, rest) = x2"
  then have h: "match_here s = Some (m, rest)" by simp
  have "length (dropWhile in_class s) \<le> length s" by (rule length_dropWhile_le)
  moreover have "\<And>after. length (dropWhile in_class after) \<le> length after"
    by (rule length_dropWhile_le)
  ultimately have "length rest < length s"
    using h by (auto simp: match_here_def Let_def split: list.splits if_splits)
       (metis le_imp_less_Suc length_Cons less_le_trans not_less)
  then show "(rest, s) \<in> measure length" by simp
next
  fix s :: string and x21 x22
  assume "s = x21 # x22"
  then show "(x22, s) \<in> measure length" by simp
qed

text \<open>
  The floats of the coordinates, in order; \<^verbatim>\<open>float\<close> raises on a run such as
  \<^verbatim>\<open>-\<close> or \<^verbatim>\<open>1.2.3\<close>.
\<close>

fun coord_floats :: "string list \<Rightarrow> py_error + (pyfloat list \<times> pyfloat list)" where
  "coord_floats [] = Inr ([], [])"
| "coord_floats (coord # coords) =
     bind_err (float_or_raise (takeWhile (\<lambda>c. c \<noteq> CHR '','') coord)) (\<lambda>x.
     bind_err (float_or_raise (drop 1 (dropWhile (\<lambda>c. c \<noteq> CHR '','') coord))) (\<lambda>y.
     bind_err (coord_floats coords) (\<lambda>r. Inr (x # fst r, y # snd r))))"

text \<open>\<^verbatim>\<open>max\<close> and \<^verbatim>\<open>min\<close> of a non-empty list of floats: the first largest, the first smallest.\<close>

fun f_max_list :: "pyfloat \<Rightarrow> pyfloat list \<Rightarrow> pyfloat" where
  "f_max_list best [] = best"
| "f_max_list best (x # xs) = f_max_list (if f_less best x then x else best) xs"

fun f_min_list :: "pyfloat \<Rightarrow> pyfloat list \<Rightarrow> pyfloat" where
  "f_min_list best [] = best"
| "f_min_list best (x # xs) = f_min_list (if f_less x best then x else best) xs"

definition parse_bed_dimensions :: "string \<Rightarrow> py_error + pyval" where
  "parse_bed_dimensions bed_shape =
     (if bed_shape = [] then Inr (VDict [(KStr ''x'', VInt 200), (KStr ''y'', VInt 200)])
      else
        (case findall_coords bed_shape of
           [] \<Rightarrow> Inr (VDict [(KStr ''x'', VInt 200), (KStr ''y'', VInt 200)])
         | coords \<Rightarrow>
             bind_err (coord_floats coords) (\<lambda>xy.
               Inr (VDict
                 [(KStr ''x'', VFloat (f_sub (f_max_list (hd (fst xy)) (tl (fst xy)))
                                            (f_min_list (hd (fst xy)) (tl (fst xy))))),
                  (KStr ''y'', VFloat (f_sub (f_max_list (hd (snd xy)) (tl (snd xy)))
                                            (f_min_list (hd (snd xy)) (tl (snd xy)))))]))))"

definition normalize_material :: "string \<Rightarrow> string" where
  "normalize_material material =
     (let mat_lower = replace_char CHR ''_'' [] (replace_char CHR ''-'' [] (str_lower material))
      in case map_of MATERIAL_MAP mat_lower of
           Some m \<Rightarrow> m
         | None \<Rightarrow> (if material \<noteq> [] then str_upper material else ''PLA''))"

definition parse_percentage :: "string \<Rightarrow> pyfloat option" where
  "parse_percentage v =
     (if CHR ''%'' \<in> set v then py_float (strip (replace_char CHR ''%'' [] v))
      else py_float v)"

text \<open>An ordering test of a profile value against a float; it raises on a value that is no number.\<close>

definition py_le :: "pyval \<Rightarrow> pyfloat \<Rightarrow> py_error + bool" where
  "py_le v x = (if is_number v then Inr (f_le (num_of v) x) else Inl TypeError)"

subsection \<open>The default skeletons\<close>

definition maintainer :: pyval where
  "maintainer =
     VDict [(KStr ''name'', VStr ''Imported from PrusaSlicer''),
            (KStr ''maintainer_type'', VStr ''community'')]"

definition printer_skeleton :: pyval where
  "printer_skeleton =
     VDict
       [(KStr ''op3d_schema'', VStr ''printer''),
        (KStr ''op3d_schema_version'', VStr ''0.1.0''),
        (KStr ''id'', VStr ''Unknown/Unknown''),
        (KStr ''maintainer'', maintainer),
        (KStr ''manufacturer'', VStr ''Unknown''),
        (KStr ''model'', VStr ''Unknown''),
        (KStr ''variant'', VStr ''Stock''),
        (KStr ''build_volume'',
           VDict [(KStr ''x'', VInt 200), (KStr ''y'', VInt 200), (KStr ''z'', VInt 200),
                  (KStr ''shape'', VStr ''rectangular''), (KStr ''origin'', VStr ''front_left'')]),
        (KStr ''kinematics'', VStr ''cartesian''),
        (KStr ''axes'',
           VDict [(KStr ''x'', VDict [(KStr ''max_speed'', VInt 300), (KStr ''max_accel'', VInt 3000)]),
                  (KStr ''y'', VDict [(KStr ''max_speed'', VInt 300), (KStr ''max_accel'', VInt 3000)]),
                  (KStr ''z'', VDict [(KStr ''max_speed'', VInt 12), (KStr ''max_accel'', VInt 500)])]),
        (KStr ''extruders'',
           VList [VDict [(KStr ''id'', VStr ''tool0''),
                         (KStr ''nozzle_diameter'', VFloat (Fin (4 / 10))),
                         (KStr ''nozzle_material'', VStr ''brass''),
                         (KStr ''max_temp'', VInt 300),
                         (KStr ''min_temp'', VInt 0),
                         (KStr ''retraction_supported'', VBool True)]]),
        (KStr ''bed'', VDict [(KStr ''heated'', VBool True), (KStr ''max_temp'', VInt 120)]),
        (KStr ''chamber'', VDict [(KStr ''heated'', VBool False), (KStr ''passive'', VBool False)]),
        (KStr ''firmware'', VDict [(KStr ''flavor'', VStr ''other'')]),
        (KStr ''network'',
           VDict [(KStr ''has_wifi'', VBool False), (KStr ''has_ethernet'', VBool False),
                  (KStr ''supports_lan_api'', VBool False)]),
        (KStr ''external_ids'', VDict []),
        (KStr ''links'', VDict []),
        (KStr ''tags'', VList []),
        (KStr ''notes'', VStr []),
        (KStr ''x_prusaslicer'', VDict [])]"

definition filament_skeleton :: pyval where
  "filament_skeleton =
     VDict
       [(KStr ''op3d_schema'', VStr ''filament''),
        (KStr ''op3d_schema_version'', VStr ''0.1.0''),
        (KStr ''id'', VStr ''Unknown/Unknown''),
        (KStr ''maintainer'', maintainer),
        (KStr ''brand'', VStr ''Unknown''),
        (KStr ''name'', VStr ''Unknown''),
        (KStr ''material'', VStr ''PLA''),
        (KStr ''diameter'', VFloat (Fin (175 / 100))),
        (KStr ''nozzle'',
           VDict [(KStr ''min'', VInt 180), (KStr ''max'', VInt 250), (KStr ''recommended'', VInt 200)]),
        (KStr ''bed'',
           VDict [(KStr ''min'', VInt 0), (KStr ''max'', VInt 100), (KStr ''recommended'', VInt 50)]),
        (KStr ''fan'',
           VDict [(KStr ''min'', VInt 0), (KStr ''max'', VInt 100), (KStr ''recommended'', VInt 100)]),
        (KStr ''volumetric_speed'', VInt 8),
        (KStr ''external_ids'', VDict []),
        (KStr ''links'', VDict []),
        (KStr ''tags'', VList []),
        (KStr ''notes'', VStr []),
        (KStr ''x_prusaslicer'', VDict [])]"

definition process_skeleton :: pyval where
  "process_skeleton =
     VDict
       [(KStr ''op3d_schema'', VStr ''process''),
        (KStr ''op3d_schema_version'', VStr ''0.1.0''),
        (KStr ''id'', VStr ''Standard/Imported''),
        (KStr ''maintainer'', maintainer),
        (KStr ''name'', VStr ''Imported Profile''),
        (KStr ''intent'', VStr ''standard''),
        (KStr ''layer_height'',
           VDict [(KStr ''min'', VFloat (Fin (5 / 100))), (KStr ''max'', VFloat (Fin (4 / 10))),
                  (KStr ''default'', VFloat (Fin (2 / 10)))]),
        (KStr ''wall_settings'',
           VDict [(KStr ''wall_count'', VInt 2), (KStr ''top_layers'', VInt 3),
                  (KStr ''bottom_layers'', VInt 3)]),
        (KStr ''infill'',
           VDict [(KStr ''density_default'', VInt 20),
                  (KStr ''density_range'', VDict [(KStr ''min'', VInt 0), (KStr ''max'', VInt 100)]),
                  (KStr ''recommended_patterns'',
                     VList [VStr ''gyroid'', VStr ''grid'', VStr ''cubic''])]),
        (KStr ''speed'',
           VDict [(KStr ''outer_wall'', VInt 30), (KStr ''inner_wall'', VInt 60),
                  (KStr ''infill'', VInt 60), (KStr ''top_bottom'', VInt 30),
                  (KStr ''travel'', VInt 150)]),
        (KStr ''accel'',
           VDict [(KStr ''default'', VInt 3000), (KStr ''outer_wall'', VInt 1000),
                  (KStr ''infill'', VInt 3000)]),
        (KStr ''retraction'',
           VDict [(KStr ''distance'', VFloat (Fin (8 / 10))), (KStr ''speed'', VInt 35)]),
        (KStr ''cooling'',
           VDict [(KStr ''fan_default'', VInt 100), (KStr ''fan_min_layer_time'', VInt 10)]),
        (KStr ''supports'',
           VDict [(KStr ''enabled_default'', VBool False), (KStr ''overhang_threshold'', VInt 45)]),
        (KStr ''adhesion'',
           VDict [(KStr ''default_type'', VStr ''skirt''), (KStr ''brim_width'', VInt 0)]),
        (KStr ''quality_bias'', VDict [(KStr ''priority'', VStr ''balanced'')]),
        (KStr ''external_ids'', VDict []),
        (KStr ''links'', VDict []),
        (KStr ''tags'', VList []),
        (KStr ''notes'', VStr []),
        (KStr ''x_prusaslicer'', VDict [])]"

subsection \<open>The three converters\<close>

text \<open>The last step of each converter: the unmapped keys go to \<^verbatim>\<open>x_prusaslicer\<close>.\<close>

definition stash_raw ::
  "config \<Rightarrow> string \<Rightarrow> (string \<times> string \<times> coercion) list \<Rightarrow> pyval \<Rightarrow> py_error + pyval" where
  "stash_raw cfg section table profile =
     bind_err (cfg_options cfg section) (\<lambda>keys.
     bind_err (collect_raw cfg section (map fst table) keys []) (\<lambda>raw_settings.
       if raw_settings \<noteq> []
       then py_setitem profile (KStr ''x_prusaslicer'') (VDict raw_settings)
       else Inr profile))"

definition printer_bed_rule :: "config \<Rightarrow> string \<Rightarrow> pyval \<Rightarrow> py_error + pyval" where
  "printer_bed_rule cfg section profile =
     (let bed_shape = cfg_get_fallback cfg section ''bed_shape'' []
      in if bed_shape \<noteq> [] then
           bind_err (parse_bed_dimensions bed_shape) (\<lambda>dims.
           bind_err (py_get dims ''x'' (VInt 200)) (\<lambda>x.
           bind_err (set_item2 profile ''build_volume'' ''x'' x) (\<lambda>p.
           bind_err (py_get dims ''y'' (VInt 200)) (\<lambda>y.
             set_item2 p ''build_volume'' ''y'' y))))
         else Inr profile)"

definition printer_id_rule :: "config \<Rightarrow> string \<Rightarrow> pyval \<Rightarrow> py_error + pyval" where
  "printer_id_rule cfg section profile =
     (if has_option cfg section ''printer_model'' then
        bind_err (cfg_get cfg section ''printer_model'') (\<lambda>model.
          let make = cfg_get_fallback cfg section ''printer_make'' ''Unknown''
          in
          bind_err (py_setitem profile (KStr ''id'')
                      (VStr (replace_char CHR '' '' ''-'' (make @ ''/'' @ model)))) (\<lambda>p1.
          bind_err (py_get p1 ''manufacturer'' VNone) (\<lambda>m.
          bind_err (if \<not> truthy m \<or> py_eq m (VStr ''Unknown'')
                    then py_setitem p1 (KStr ''manufacturer'') (VStr make)
                    else Inr p1) (\<lambda>p2.
          bind_err (py_get p2 ''model'' VNone) (\<lambda>md.
            if \<not> truthy md \<or> py_eq md (VStr ''Unknown'')
            then py_setitem p2 (KStr ''model'') (VStr model)
            else Inr p2)))))
      else Inr profile)"

definition convert_printer :: "config \<Rightarrow> string \<Rightarrow> py_error + pyval" where
  "convert_printer cfg section =
     bind_err (apply_mappings cfg section PRINTER_MAPPINGS printer_skeleton) (\<lambda>p1.
     bind_err (printer_bed_rule cfg section p1) (\<lambda>p2.
     bind_err (py_setitem p2 (KStr ''kinematics'') (VStr (infer_kinematics cfg section))) (\<lambda>p3.
     bind_err (printer_id_rule cfg section p3) (\<lambda>p4.
       stash_raw cfg section PRINTER_MAPPINGS p4))))"

text \<open>
  The derived rules of the filament converter read their option again with a bare
  \<^verbatim>\<open>float(...)\<close>, outside any \<^verbatim>\<open>try\<close>.
\<close>

definition filament_temperature_rule :: "config \<Rightarrow> string \<Rightarrow> pyval \<Rightarrow> py_error + pyval" where
  "filament_temperature_rule cfg section profile =
     (if has_option cfg section ''temperature'' then
        bind_err (cfg_get cfg section ''temperature'') (\<lambda>raw.
        bind_err (float_or_raise raw) (\<lambda>temp.
        bind_err (set_item2 profile ''nozzle'' ''recommended'' (VFloat temp)) (\<lambda>p1.
        bind_err (set_item2 p1 ''nozzle'' ''min''
                    (py_max (VInt 150) (VFloat (f_sub temp (Fin 20))))) (\<lambda>p2.
          set_item2 p2 ''nozzle'' ''max''
            (py_min (VInt 300) (VFloat (f_add temp (Fin 20))))))))
      else Inr profile)"

definition filament_bed_rule :: "config \<Rightarrow> string \<Rightarrow> pyval \<Rightarrow> py_error + pyval" where
  "filament_bed_rule cfg section profile =
     (if has_option cfg section ''bed_temperature'' then
        bind_err (cfg_get cfg section ''bed_temperature'') (\<lambda>raw.
        bind_err (float_or_raise raw) (\<lambda>temp.
        bind_err (set_item2 profile ''bed'' ''recommended'' (VFloat temp)) (\<lambda>p1.
        bind_err (set_item2 p1 ''bed'' ''min''
                    (py_max (VInt 0) (VFloat (f_sub temp (Fin 10))))) (\<lambda>p2.
          set_item2 p2 ''bed'' ''max''
            (py_min (VInt 150) (VFloat (f_add temp (Fin 10))))))))
      else Inr profile)"

text \<open>\<^verbatim>\<open>profile[k1][k2] = float(config.get(section, key))\<close> when the option is there.\<close>

definition float_rule ::
  "config \<Rightarrow> string \<Rightarrow> string \<Rightarrow> string \<Rightarrow> string \<Rightarrow> pyval \<Rightarrow> py_error + pyval" where
  "float_rule cfg section key k1 k2 profile =
     (if has_option cfg section key then
        bind_err (cfg_get cfg section key) (\<lambda>raw.
        bind_err (float_or_raise raw) (\<lambda>f.
          set_item2 profile k1 k2 (VFloat f)))
      else Inr profile)"

definition filament_name_rule :: "config \<Rightarrow> string \<Rightarrow> pyval \<Rightarrow> py_error + pyval" where
  "filament_name_rule cfg section profile =
     (let brand = cfg_get_fallback cfg section ''filament_vendor'' ''Unknown'';
          name = cfg_get_fallback cfg section ''filament_name''
                   (cfg_get_fallback cfg section ''filament_type'' ''Unknown'')
      in
      bind_err (if brand \<noteq> [] \<and> brand \<noteq> ''Unknown''
                then py_setitem profile (KStr ''brand'') (VStr brand) else Inr profile) (\<lambda>p1.
      bind_err (if name \<noteq> [] \<and> name \<noteq> ''Unknown''
                then py_setitem p1 (KStr ''name'') (VStr name) else Inr p1) (\<lambda>p2.
      bind_err (py_getitem p2 (KStr ''brand'')) (\<lambda>b.
      bind_err (py_getitem p2 (KStr ''name'')) (\<lambda>n.
        py_setitem p2 (KStr ''id'')
          (VStr (replace_char CHR ''/'' ''-''
                   (replace_char CHR '' '' ''-'' (py_str b @ ''/'' @ py_str n)))))))))"

definition convert_filament :: "config \<Rightarrow> string \<Rightarrow> py_error + pyval" where
  "convert_filament cfg section =
     bind_err (apply_mappings cfg section FILAMENT_MAPPINGS filament_skeleton) (\<lambda>p1.
     bind_err (if has_option cfg section ''filament_type'' then
                 bind_err (cfg_get cfg section ''filament_type'') (\<lambda>material.
                   py_setitem p1 (KStr ''material'') (VStr (normalize_material material)))
               else Inr p1) (\<lambda>p2.
     bind_err (filament_temperature_rule cfg section p2) (\<lambda>p3.
     bind_err (filament_bed_rule cfg section p3) (\<lambda>p4.
     bind_err (float_rule cfg section ''max_fan_speed'' ''fan'' ''recommended'' p4) (\<lambda>p5.
     bind_err (filament_name_rule cfg section p5) (\<lambda>p6.
       stash_raw cfg section FILAMENT_MAPPINGS p6))))))"

definition process_layer_rule :: "config \<Rightarrow> string \<Rightarrow> pyval \<Rightarrow> py_error + pyval" where
  "process_layer_rule cfg section profile =
     (if has_option cfg section ''layer_height'' then
        bind_err (cfg_get cfg section ''layer_height'') (\<lambda>raw.
        bind_err (float_or_raise raw) (\<lambda>layer_h.
        bind_err (set_item2 profile ''layer_height'' ''default'' (VFloat layer_h)) (\<lambda>p1.
        bind_err (set_item2 p1 ''layer_height'' ''min''
                    (py_max (VFloat (Fin (5 / 100)))
                            (VFloat (f_mul layer_h (Fin (25 / 100)))))) (\<lambda>p2.
          set_item2 p2 ''layer_height'' ''max''
            (py_min (VFloat (Fin (4 / 10))) (VFloat (f_mul layer_h (Fin 2))))))))
      else Inr profile)"

text \<open>The fill density is the one derived rule with a \<^verbatim>\<open>try\<close> of its own.\<close>

definition process_fill_rule :: "config \<Rightarrow> string \<Rightarrow> pyval \<Rightarrow> py_error + pyval" where
  "process_fill_rule cfg section profile =
     (if has_option cfg section ''fill_density'' then
        bind_err (cfg_get cfg section ''fill_density'') (\<lambda>fill.
          case (if CHR ''%'' \<in> set fill then parse_percentage fill
                else map_option (\<lambda>f. f_mul f (Fin 100)) (py_float fill)) of
            None \<Rightarrow> Inr profile
          | Some density \<Rightarrow> set_item2 profile ''infill'' ''density_default'' (VFloat density))
      else Inr profile)"

definition process_intent :: "pyval \<Rightarrow> py_error + string" where
  "process_intent layer_h =
     bind_err (py_le layer_h (Fin (1 / 10))) (\<lambda>b1.
       if b1 then Inr ''high_detail''
       else bind_err (py_le layer_h (Fin (15 / 100))) (\<lambda>b2.
         if b2 then Inr ''quality''
         else bind_err (py_le layer_h (Fin (25 / 100))) (\<lambda>b3.
           if b3 then Inr ''standard'' else Inr ''draft'')))"

definition process_name_rule :: "config \<Rightarrow> string \<Rightarrow> pyval \<Rightarrow> py_error + pyval" where
  "process_name_rule cfg section profile =
     (let name = cfg_get_fallback cfg section ''name'' ''Imported Profile''
      in
      bind_err (py_setitem profile (KStr ''name'') (VStr name)) (\<lambda>p1.
      bind_err (get_item2 p1 ''layer_height'' ''default'') (\<lambda>layer_h.
      bind_err (py_setitem p1 (KStr ''id'')
                  (VStr (replace_char CHR '' '' ''-''
                           (''Standard/'' @ py_str layer_h @ ''mm-'' @ name)))) (\<lambda>p2.
      bind_err (process_intent layer_h) (\<lambda>intent.
        py_setitem p2 (KStr ''intent'') (VStr intent))))))"

definition convert_process :: "config \<Rightarrow> string \<Rightarrow> py_error + pyval" where
  "convert_process cfg section =
     bind_err (apply_mappings cfg section PROCESS_MAPPINGS process_skeleton) (\<lambda>p1.
     bind_err (process_layer_rule cfg section p1) (\<lambda>p2.
     bind_err (process_fill_rule cfg section p2) (\<lambda>p3.
     bind_err (float_rule cfg section ''perimeter_speed'' ''speed'' ''outer_wall'' p3) (\<lambda>p4.
     bind_err (float_rule cfg section ''infill_speed'' ''speed'' ''infill'' p4) (\<lambda>p5.
     bind_err (float_rule cfg section ''travel_speed'' ''speed'' ''travel'' p5) (\<lambda>p6.
     bind_err (float_rule cfg section ''retract_length'' ''retraction'' ''distance'' p6) (\<lambda>p7.
     bind_err (float_rule cfg section ''retract_speed'' ''retraction'' ''speed'' p7) (\<lambda>p8.
     bind_err (process_name_rule cfg section p8) (\<lambda>p9.
       stash_raw cfg section PROCESS_MAPPINGS p9)))))))))"

text \<open>
  \<^verbatim>\<open>convert_profile(config, profile_type)\<close>: each converter on its default section,
  and \<^verbatim>\<open>ValueError\<close> for a type that is none of the three.
\<close>

definition convert_profile :: "config \<Rightarrow> string \<Rightarrow> py_error + pyval" where
  "convert_profile cfg profile_type =
     (if profile_type = ''printer'' then convert_printer cfg ''printer''
      else if profile_type = ''filament'' then convert_filament cfg ''filament''
      else if profile_type = ''process'' then convert_process cfg ''print''
      else Inl ValueError)"

section \<open>Paths that do not touch each other\<close>


section \<open>Properties of dictionaries and values\<close>












section \<open>Properties of the flatten and diff engine\<close>

declare flatten_dict.simps [simp del]










lemma py_sorted_set: "py_sorted ks = Inr ks' \<Longrightarrow> set ks' = set ks"
proof -
  assume a: "py_sorted ks = Inr ks'"
  have "KStr ` set (str_keys ks) \<union> KInt ` set (int_keys ks) = set ks"
    by (induction ks rule: str_keys.induct) auto
  with a show ?thesis by (auto simp: py_sorted_def split: if_splits)
qed


lemma compare_keys_different_sound:
  "e \<in> set (fst (compare_keys f1 f2 sc ks)) \<Longrightarrow> d_status e = ''different'' \<Longrightarrow>
     \<not> compare_values (get_or_none f1 (d_key e)) (get_or_none f2 (d_key e))"
  by (induction ks) (auto simp: Let_def split: if_splits)

lemma compare_keys_different_complete:
  "k \<in> set ks \<Longrightarrow> dict_has f1 k \<Longrightarrow> dict_has f2 k \<Longrightarrow>
   \<not> compare_values (get_or_none f1 k) (get_or_none f2 k) \<Longrightarrow>
   \<lparr>d_key = k, d_profile1 = get_or_none f1 k, d_profile2 = get_or_none f2 k,
      d_status = ''different''\<rparr> \<in> set (fst (compare_keys f1 f2 sc ks))"
  by (induction ks) (auto simp: Let_def)

lemma compare_keys_different:
  assumes "k \<in> set ks" "dict_has f1 k" "dict_has f2 k"
  shows "(\<lparr>d_key = k, d_profile1 = get_or_none f1 k, d_profile2 = get_or_none f2 k,
            d_status = ''different''\<rparr> \<in> set (fst (compare_keys f1 f2 sc ks)))
         = (\<not> compare_values (get_or_none f1 k) (get_or_none f2 k))"
  using compare_keys_different_sound[of _ f1 f2 sc ks] compare_keys_different_complete[OF assms, of sc]
  by fastforce

lemma compare_keys_entry_key:
  "e \<in> set (fst (compare_keys f1 f2 sc ks)) \<Longrightarrow> d_key e \<in> set ks"
  by (induction ks) (auto simp: Let_def split: if_splits)



lemmas diff_eval_defs =
  compare_profiles_def flatten_dict.simps dict_of_items_def new_key_def truthy_key_def
  py_sorted_def bind_err_def get_or_none_def dict_get_def dict_has_def compare_values_def
  count_status_def get_default_def key_str_def f_eq_def Let_def

lemma int_float_diff_eval:
  "compare_profiles [(KStr ''a'', VInt 50)] [(KStr ''a'', VFloat (Fin 50))] sc =
     Inr \<lparr>profile1_schema = VStr ''unknown'', profile2_schema = VStr ''unknown'',
          profile1_id = VStr ''unknown'', profile2_id = VStr ''unknown'',
          differences = [],
          common = (if sc then [(KStr ''a'', VInt 50)] else []),
          stats = \<lparr>total_keys = 1, n_differences = 0, n_common = (if sc then 1 else 0),
                   only_in_profile1 = 0, only_in_profile2 = 0, modified = 0\<rparr>\<rparr>"
  by (simp add: diff_eval_defs)




text \<open>
  Claim C5, as stated, fails: the diff engine compares with Python's \<^verbatim>\<open>==\<close>, under
  which the integer 50 and the float 50.0 are equal, so two profiles holding them at
  the same leaf path have no difference there (the path is listed as common).
\<close>

theorem int_float_equal_counterexample:
  "compare_values (VInt 50) (VFloat (Fin 50)) \<and>
   compare_profiles [(KStr ''a'', VInt 50)] [(KStr ''a'', VFloat (Fin 50))] True =
     Inr \<lparr>profile1_schema = VStr ''unknown'', profile2_schema = VStr ''unknown'',
          profile1_id = VStr ''unknown'', profile2_id = VStr ''unknown'',
          differences = [],
          common = [(KStr ''a'', VInt 50)],
          stats = \<lparr>total_keys = 1, n_differences = 0, n_common = 1,
                   only_in_profile1 = 0, only_in_profile2 = 0, modified = 0\<rparr>\<rparr>"
  using int_float_diff_eval[of True] by (simp add: compare_values_def f_eq_def)

text \<open>
  Claim C5, amended. Equality in the diff engine is Python's \<^verbatim>\<open>==\<close>: a leaf path
  present in both profiles is reported with status "different" exactly when its two
  values are unequal under \<^verbatim>\<open>==\<close>. An integer and a float are equal exactly when
  they are numerically equal, so 50 and 50.0 are not reported; a string is never
  equal to a number, so the text "50" against the number 50 is reported.
\<close>

theorem diff_equality_is_python_eq:
  assumes "compare_profiles p1 p2 sc = Inr r"
    and "dict_get (flatten_dict p1 (KStr []) ''.'') k = Some v1"
    and "dict_get (flatten_dict p2 (KStr []) ''.'') k = Some v2"
  shows "((\<lparr>d_key = k, d_profile1 = v1, d_profile2 = v2, d_status = ''different''\<rparr>
            \<in> set (differences r)) = (\<not> compare_values v1 v2)) \<and>
         compare_values (VInt i) (VFloat (Fin x)) = (of_int i = x) \<and>
         compare_values (VFloat (Fin x)) (VInt i) = (x = of_int i) \<and>
         compare_values (VInt i) (VInt j) = (i = j) \<and>
         compare_values (VFloat (Fin x)) (VFloat (Fin y)) = (x = y) \<and>
         \<not> compare_values (VStr s) (VInt i) \<and> \<not> compare_values (VInt i) (VStr s) \<and>
         \<not> compare_values (VStr s) (VFloat f) \<and> \<not> compare_values (VFloat f) (VStr s)"
proof -
  let ?f1 = "flatten_dict p1 (KStr []) ''.''" and ?f2 = "flatten_dict p2 (KStr []) ''.''"
  let ?all = "remdups (map fst ?f1 @ map fst ?f2)"
  from assms(1) obtain ks where ks: "py_sorted ?all = Inr ks"
    and r: "differences r = fst (compare_keys ?f1 ?f2 sc ks)"
    by (auto simp: compare_profiles_def Let_def bind_err_def split: sum.splits)
  have k1: "dict_has ?f1 k" and k2: "dict_has ?f2 k"
    using assms(2,3) by (auto simp: dict_has_def dict_get_def dest: map_of_SomeD intro: rev_image_eqI)
  have "k \<in> set ?all" using k1 by (simp add: dict_has_def)
  then have kin: "k \<in> set ks" using py_sorted_set[OF ks] by simp
  have g: "get_or_none ?f1 k = v1" "get_or_none ?f2 k = v2"
    using assms(2,3) by (simp_all add: get_or_none_def)
  show ?thesis
    using compare_keys_different[OF kin k1 k2, of sc] g r
    by (simp add: compare_values_def f_eq_def)
qed

theorem diff_equality_is_python_eq_witness:
  "compare_profiles [(KStr ''a'', VInt 50)] [(KStr ''a'', VFloat (Fin 50))] False =
     Inr \<lparr>profile1_schema = VStr ''unknown'', profile2_schema = VStr ''unknown'',
          profile1_id = VStr ''unknown'', profile2_id = VStr ''unknown'',
          differences = [], common = [],
          stats = \<lparr>total_keys = 1, n_differences = 0, n_common = 0,
                   only_in_profile1 = 0, only_in_profile2 = 0, modified = 0\<rparr>\<rparr> \<and>
   dict_get (flatten_dict [(KStr ''a'', VInt 50)] (KStr []) ''.'') (KStr ''a'') = Some (VInt 50) \<and>
   dict_get (flatten_dict [(KStr ''a'', VFloat (Fin 50))] (KStr []) ''.'') (KStr ''a'') = Some (VFloat (Fin 50)) \<and>
   compare_values (VInt 50) (VFloat (Fin 50)) \<and>
   \<not> compare_values (VStr ''50'') (VInt 50)"
proof -
  have e: "compare_profiles [(KStr ''a'', VInt 50)] [(KStr ''a'', VFloat (Fin 50))] False =
     Inr \<lparr>profile1_schema = VStr ''unknown'', profile2_schema = VStr ''unknown'',
          profile1_id = VStr ''unknown'', profile2_id = VStr ''unknown'',
          differences = [], common = [],
          stats = \<lparr>total_keys = 1, n_differences = 0, n_common = 0,
                   only_in_profile1 = 0, only_in_profile2 = 0, modified = 0\<rparr>\<rparr>"
    using int_float_diff_eval[of False] by simp
  have g1: "dict_get (flatten_dict [(KStr ''a'', VInt 50)] (KStr []) ''.'') (KStr ''a'') = Some (VInt 50)"
    by (simp add: diff_eval_defs)
  have g2: "dict_get (flatten_dict [(KStr ''a'', VFloat (Fin 50))] (KStr []) ''.'') (KStr ''a'') = Some (VFloat (Fin 50))"
    by (simp add: diff_eval_defs)
  from diff_equality_is_python_eq[OF e g1 g2, of 50 50 50 50 "''50''" "Fin 50"] e g1 g2
  show ?thesis by simp
qed

section \<open>Properties of the exporters\<close>

lemma py_eq_str: "py_eq v (VStr s) = (v = VStr s)"
  by (cases v) auto

lemmas converter_defs =
  convert_to_cura_def convert_to_prusaslicer_def convert_to_orca_def convert_to_bambu_def

text \<open>
  Claim C10. For every profile (a mapping) whose \<^verbatim>\<open>op3d_schema\<close> is anything other
  than "filament" or "printer" (the kind "process" and a missing discriminator
  included), the export to each of the four dialects returns the empty document and
  raises nothing.
\<close>

theorem export_other_kind_empty:
  assumes "get_default d (KStr ''op3d_schema'') (VStr []) \<noteq> VStr ''filament''"
    and "get_default d (KStr ''op3d_schema'') (VStr []) \<noteq> VStr ''printer''"
  shows "converter D (VDict d) = Inr (VDict [])"
  using assms by (cases D) (simp_all add: converter_defs py_get_def bind_err_def py_eq_str)

theorem export_other_kind_empty_witness:
  "get_default [(KStr ''op3d_schema'', VStr ''process''), (KStr ''x_cura'', VDict [(KStr ''speed'', VInt 60)])]
     (KStr ''op3d_schema'') (VStr []) \<noteq> VStr ''filament'' \<and>
   get_default [(KStr ''op3d_schema'', VStr ''process''), (KStr ''x_cura'', VDict [(KStr ''speed'', VInt 60)])]
     (KStr ''op3d_schema'') (VStr []) \<noteq> VStr ''printer'' \<and>
   convert_to_cura (VDict [(KStr ''op3d_schema'', VStr ''process''), (KStr ''x_cura'', VDict [(KStr ''speed'', VInt 60)])]) = Inr (VDict []) \<and>
   convert_to_prusaslicer (VDict [(KStr ''op3d_schema'', VStr ''process''), (KStr ''x_cura'', VDict [(KStr ''speed'', VInt 60)])]) = Inr (VDict []) \<and>
   convert_to_orca (VDict [(KStr ''op3d_schema'', VStr ''process''), (KStr ''x_cura'', VDict [(KStr ''speed'', VInt 60)])]) = Inr (VDict []) \<and>
   convert_to_bambu (VDict [(KStr ''op3d_schema'', VStr ''process''), (KStr ''x_cura'', VDict [(KStr ''speed'', VInt 60)])]) = Inr (VDict [])"
proof -
  let ?d = "[(KStr ''op3d_schema'', VStr ''process''), (KStr ''x_cura'', VDict [(KStr ''speed'', VInt 60)])]"
  have a: "get_default ?d (KStr ''op3d_schema'') (VStr []) \<noteq> VStr ''filament''"
    and b: "get_default ?d (KStr ''op3d_schema'') (VStr []) \<noteq> VStr ''printer''"
    by (simp_all add: get_default_def dict_get_def)
  from export_other_kind_empty[OF a b, of Cura] export_other_kind_empty[OF a b, of PrusaSlicer]
    export_other_kind_empty[OF a b, of Orca] export_other_kind_empty[OF a b, of Bambu] a b
  show ?thesis by simp
qed

text \<open>
  Claim C4, as stated, fails: a printer profile with a non-empty \<^verbatim>\<open>x_cura\<close> is not
  relayed verbatim to Cura (the export is the block's \<^verbatim>\<open>definition_changes\<close> entry,
  here absent, so the empty document), and a profile of another kind is exported as the
  empty document whatever its vendor-extension namespace holds.
\<close>

theorem cura_printer_not_verbatim_counterexample:
  "truthy (VDict [(KStr ''machine_width'', VInt 300)]) \<and>
   convert_to_cura (VDict [(KStr ''op3d_schema'', VStr ''printer''),
                           (KStr ''x_cura'', VDict [(KStr ''machine_width'', VInt 300)])])
     = Inr (VDict []) \<and>
   convert_to_orca (VDict [(KStr ''op3d_schema'', VStr ''process''),
                           (KStr ''x_orca'', VDict [(KStr ''layer_height'', VStr ''0.2'')])])
     = Inr (VDict [])"
  by (simp add: converter_defs py_get_def bind_err_def get_default_def dict_get_def)

text \<open>
  Claim C4, amended. For every dialect and every profile of kind filament or printer
  whose vendor-extension namespace for the dialect is non-empty (truthy), the export
  returns exactly that namespace, ignoring all canonical fields, except for the printer
  kind on Cura, where it returns the namespace's \<^verbatim>\<open>definition_changes\<close> entry (the
  empty mapping when there is none). In particular a filament profile whose
  \<^verbatim>\<open>x_cura\<close> is \<^verbatim>\<open>{print_temperature: 999}\<close> is exported to Cura as exactly that
  block, whatever \<^verbatim>\<open>nozzle.recommended\<close> is.
\<close>

theorem export_relays_extension:
  assumes "dict_get d (KStr ''op3d_schema'') = Some (VStr kind)"
    and "kind = ''filament'' \<or> kind = ''printer''"
    and "dict_get d (KStr (extension_key D)) = Some ns"
    and "truthy ns"
  shows "converter D (VDict d) =
           (if kind = ''printer'' \<and> D = Cura then py_get ns ''definition_changes'' (VDict [])
            else Inr ns)"
  using assms
  by (cases D) (auto simp add: converter_defs py_get_def bind_err_def py_eq_str get_default_def)

theorem export_relays_extension_witness:
  "dict_get [(KStr ''op3d_schema'', VStr ''filament''),
             (KStr ''nozzle'', VDict [(KStr ''recommended'', VInt 205)]),
             (KStr ''x_cura'', VDict [(KStr ''print_temperature'', VInt 999)])]
     (KStr ''op3d_schema'') = Some (VStr ''filament'') \<and>
   dict_get [(KStr ''op3d_schema'', VStr ''filament''),
             (KStr ''nozzle'', VDict [(KStr ''recommended'', VInt 205)]),
             (KStr ''x_cura'', VDict [(KStr ''print_temperature'', VInt 999)])]
     (KStr (extension_key Cura)) = Some (VDict [(KStr ''print_temperature'', VInt 999)]) \<and>
   truthy (VDict [(KStr ''print_temperature'', VInt 999)]) \<and>
   convert_to_cura (VDict [(KStr ''op3d_schema'', VStr ''filament''),
             (KStr ''nozzle'', VDict [(KStr ''recommended'', VInt 205)]),
             (KStr ''x_cura'', VDict [(KStr ''print_temperature'', VInt 999)])])
     = Inr (VDict [(KStr ''print_temperature'', VInt 999)])"
proof -
  let ?d = "[(KStr ''op3d_schema'', VStr ''filament''),
             (KStr ''nozzle'', VDict [(KStr ''recommended'', VInt 205)]),
             (KStr ''x_cura'', VDict [(KStr ''print_temperature'', VInt 999)])]"
  have a: "dict_get ?d (KStr ''op3d_schema'') = Some (VStr ''filament'')"
    by (simp add: dict_get_def)
  have b: "''filament'' = ''filament'' \<or> ''filament'' = ''printer''" by simp
  have c: "dict_get ?d (KStr (extension_key Cura)) = Some (VDict [(KStr ''print_temperature'', VInt 999)])"
    by (simp add: dict_get_def)
  have t: "truthy (VDict [(KStr ''print_temperature'', VInt 999)])" by simp
  from export_relays_extension[OF a b c t] a c t show ?thesis by simp
qed

section \<open>Frame properties of the importer\<close>

































section \<open>Properties of path addressing\<close>

text \<open>
  Claim C3 (a defect of the code). The dictionary \<^verbatim>\<open>{"a": 5}\<close> holds a scalar at the
  prefix \<^verbatim>\<open>a\<close> of the path \<^verbatim>\<open>a.0.b\<close>. \<^verbatim>\<open>set_nested\<close> returns without an
  exception and leaves the dictionary as it was: the value is written into a list that
  nothing refers to, and reading the path back finds nothing. The same happens to a
  digit segment under a freshly created mapping.
\<close>

theorem set_nested_loses_value:
  "set_nested (VDict [(KStr ''a'', VInt 5)]) ''a.0.b'' (VInt 1)
     = (VDict [(KStr ''a'', VInt 5)], None) \<and>
   get_nested (VDict [(KStr ''a'', VInt 5)]) ''a.0.b'' = None \<and>
   set_nested (VDict []) ''extruders.0.nozzle_diameter'' (VFloat (Fin (4 / 10)))
     = (VDict [(KStr ''extruders'', VDict [])], None)"
  by code_simp

text \<open>
  Claim C6 (a defect of the code). A final digit segment past the end of a list is not
  padded: on \<^verbatim>\<open>{"tags": []}\<close> the path \<^verbatim>\<open>tags.0\<close> raises \<^verbatim>\<open>IndexError\<close>, while
  the same index as an intermediate segment (\<^verbatim>\<open>tags.1.name\<close>) pads the list with
  empty mappings.
\<close>

theorem set_nested_final_index_raises:
  "set_nested (VDict [(KStr ''tags'', VList [])]) ''tags.0'' (VStr ''pla'')
     = (VDict [(KStr ''tags'', VList [])], Some IndexError) \<and>
   set_nested (VDict [(KStr ''tags'', VList [])]) ''tags.1.name'' (VStr ''pla'')
     = (VDict [(KStr ''tags'', VList [VDict [], VDict [(KStr ''name'', VStr ''pla'')]])], None)"
  by code_simp

section \<open>Properties of the importer\<close>

lemma minimal_printer_value:
  "convert_printer
     [(''printer'', [(''printer_model'', ''X1''), (''printer_make'', ''Acme''),
                     (''nozzle_diameter'', ''0.4''),
                     (''bed_shape'', ''0x0,250x0,250x250,0x250'')])] ''printer'' =
   Inr (VDict
       [(KStr ''op3d_schema'', VStr ''printer''),
        (KStr ''op3d_schema_version'', VStr ''0.1.0''),
        (KStr ''id'', VStr ''Acme/X1''),
        (KStr ''maintainer'',
         VDict
          [(KStr ''name'', VStr ''Imported from PrusaSlicer''),
           (KStr ''maintainer_type'', VStr ''community'')]),
        (KStr ''manufacturer'', VStr ''Acme''),
        (KStr ''model'', VStr ''X1''), (KStr ''variant'', VStr ''Stock''),
        (KStr ''build_volume'',
         VDict
          [(KStr ''x'', VFloat (Fin 250)), (KStr ''y'', VFloat (Fin 250)),
           (KStr ''z'', VInt 200),
           (KStr ''shape'', VStr ''0x0,250x0,250x250,0x250''),
           (KStr ''origin'', VStr ''front_left'')]),
        (KStr ''kinematics'', VStr ''cartesian''),
        (KStr ''axes'',
         VDict
          [(KStr ''x'',
            VDict
             [(KStr ''max_speed'', VInt 300),
              (KStr ''max_accel'', VInt 3000)]),
           (KStr ''y'',
            VDict
             [(KStr ''max_speed'', VInt 300),
              (KStr ''max_accel'', VInt 3000)]),
           (KStr ''z'',
            VDict
             [(KStr ''max_speed'', VInt 12),
              (KStr ''max_accel'', VInt 500)])]),
        (KStr ''extruders'',
         VList
          [VDict
            [(KStr ''id'', VStr ''tool0''),
             (KStr ''nozzle_diameter'', VFloat (Fin (4 / 10))),
             (KStr ''nozzle_material'', VStr ''brass''),
             (KStr ''max_temp'', VInt 300), (KStr ''min_temp'', VInt 0),
             (KStr ''retraction_supported'', VBool True)]]),
        (KStr ''bed'',
         VDict
          [(KStr ''heated'', VBool True), (KStr ''max_temp'', VInt 120)]),
        (KStr ''chamber'',
         VDict
          [(KStr ''heated'', VBool False),
           (KStr ''passive'', VBool False)]),
        (KStr ''firmware'', VDict [(KStr ''flavor'', VStr ''other'')]),
        (KStr ''network'',
         VDict
          [(KStr ''has_wifi'', VBool False),
           (KStr ''has_ethernet'', VBool False),
           (KStr ''supports_lan_api'', VBool False)]),
        (KStr ''external_ids'', VDict []), (KStr ''links'', VDict []),
        (KStr ''tags'', VList []), (KStr ''notes'', VStr []),
        (KStr ''x_prusaslicer'', VDict [])])"
  by code_simp

text \<open>
  Claim C7. Importing the printer section with \<^verbatim>\<open>printer_model = X1\<close>,
  \<^verbatim>\<open>printer_make = Acme\<close>, \<^verbatim>\<open>nozzle_diameter = 0.4\<close> and
  \<^verbatim>\<open>bed_shape = 0x0,250x0,250x250,0x250\<close> returns a profile whose \<^verbatim>\<open>id\<close> is
  \<^verbatim>\<open>Acme/X1\<close>, whose \<^verbatim>\<open>extruders[0].nozzle_diameter\<close> is 0.4 and whose
  \<^verbatim>\<open>build_volume.x\<close> and \<^verbatim>\<open>build_volume.y\<close> are the float 250.0, which equals 250.
\<close>

theorem minimal_printer_import:
  "\<exists>p extruders extruder.
     convert_profile
       [(''printer'', [(''printer_model'', ''X1''), (''printer_make'', ''Acme''),
                       (''nozzle_diameter'', ''0.4''),
                       (''bed_shape'', ''0x0,250x0,250x250,0x250'')])] ''printer'' = Inr p \<and>
     py_getitem p (KStr ''id'') = Inr (VStr ''Acme/X1'') \<and>
     py_getitem p (KStr ''extruders'') = Inr extruders \<and>
     py_getitem extruders (KInt 0) = Inr extruder \<and>
     py_getitem extruder (KStr ''nozzle_diameter'') = Inr (VFloat (Fin (4 / 10))) \<and>
     get_item2 p ''build_volume'' ''x'' = Inr (VFloat (Fin 250)) \<and>
     get_item2 p ''build_volume'' ''y'' = Inr (VFloat (Fin 250)) \<and>
     py_eq (VFloat (Fin 250)) (VInt 250)"
  by (simp add: convert_profile_def minimal_printer_value py_getitem_def get_item2_def
        dict_get_def bind_err_def f_eq_def)

text \<open>
  Claim C2 (a defect of the code). A filament section whose \<^verbatim>\<open>temperature\<close> is not a
  number makes the import raise \<^verbatim>\<open>ValueError\<close>: the mapping loop skips the field, but
  the derived rule reads it again with a bare \<^verbatim>\<open>float\<close>. The process converter does
  the same with \<^verbatim>\<open>layer_height\<close>.
\<close>

theorem filament_malformed_temperature_raises:
  "coerce ToFloat ''hot'' = None \<and>
   convert_profile
     [(''filament'', [(''filament_type'', ''PLA''), (''temperature'', ''hot'')])] ''filament''
     = Inl ValueError \<and>
   coerce ToFloat ''thick'' = None \<and>
   convert_profile [(''print'', [(''layer_height'', ''thick'')])] ''process'' = Inl ValueError"
  by code_simp

section \<open>The paths of the mapping tables\<close>







section \<open>A mapped key whose coercion fails\<close>











end
